theory Spec2Isabelle
  imports Complex_Main "HOL-Library.Word"
begin

section \<open>Python values used by the upload handler\<close>

text \<open>
  A Python \<open>str\<close> is a sequence of Unicode code points, so a string is a list of
  natural numbers; \<open>lit\<close> turns a literal of the source into that representation.
  A \<open>bytes\<close> payload is a list of octets.
\<close>

type_synonym pystr = "nat list"
type_synonym bytes = "8 word list"

definition lit :: "string \<Rightarrow> pystr" where
  "lit s = map of_char s"

text \<open>
  \<open>str.isalnum\<close> and \<open>str.lower\<close> consult the Unicode database of the interpreter.
  On ASCII their behaviour is fixed and written out here; for the code points from 128 on
  the database is a parameter of the model, so every theorem holds whatever it contains.
  \<open>lower_hi\<close> receives the whole string and the position, since the lower-case form of
  a non-ASCII character may depend on its context and may be several code points long.
\<close>

record unicode_db =
  isalnum_hi :: "nat \<Rightarrow> bool"
  lower_hi :: "pystr \<Rightarrow> nat \<Rightarrow> pystr"

definition isalnum :: "unicode_db \<Rightarrow> nat \<Rightarrow> bool" where
  "isalnum db ch =
     (if ch < 128
      then (48 \<le> ch \<and> ch \<le> 57) \<or> (65 \<le> ch \<and> ch \<le> 90) \<or> (97 \<le> ch \<and> ch \<le> 122)
      else isalnum_hi db ch)"

fun lower_from :: "unicode_db \<Rightarrow> pystr \<Rightarrow> nat \<Rightarrow> pystr \<Rightarrow> pystr" where
  "lower_from db s i [] = []"
| "lower_from db s i (ch # rest) =
     (if ch < 128 then [if 65 \<le> ch \<and> ch \<le> 90 then ch + 32 else ch] else lower_hi db s i)
     @ lower_from db s (Suc i) rest"

definition lower :: "unicode_db \<Rightarrow> pystr \<Rightarrow> pystr" where
  "lower db s = lower_from db s 0 s"

text \<open>\<open>a or b\<close> on strings: the first operand unless it is empty.\<close>

definition str_or :: "pystr \<Rightarrow> pystr \<Rightarrow> pystr" where
  "str_or a b = (if a = [] then b else a)"

text \<open>\<open>s.strip(chars)\<close>: leading and trailing characters that occur in \<open>chars\<close> are removed.\<close>

definition strip :: "pystr \<Rightarrow> pystr \<Rightarrow> pystr" where
  "strip chars s =
     rev (dropWhile (\<lambda>c. c \<in> set chars) (rev (dropWhile (\<lambda>c. c \<in> set chars) s)))"

text \<open>
  The trim values are Python floats, IEEE 754 doubles: a finite value (\<open>Finite 0\<close> is
  \<open>+0.0\<close>), the negative zero, the two infinities, or not-a-number. The handler
  compares them, tests them for truth, subtracts them and formats them. \<open>fless\<close> and
  \<open>fle\<close> are \<open><\<close> and \<open><=\<close>: false whenever an operand is not-a-number, the two
  zeros equal. \<open>fsub\<close> is the subtraction; its special cases (not-a-number, infinities,
  zeros, equal operands) are written out, and the difference of two other finite values is
  the exact difference rounded to a double, where the rounding function of the format is
  a parameter of the model. The text \<open>f"{x}"\<close> of a float is kept symbolic (see \<open>arg\<close>
  below).
\<close>

datatype pyfloat = Finite real | NegZero | PosInf | NegInf | NaN

fun fvalue :: "pyfloat \<Rightarrow> real" where
  "fvalue (Finite r) = r"
| "fvalue _ = 0"

fun fless :: "pyfloat \<Rightarrow> pyfloat \<Rightarrow> bool" where
  "fless NaN _ = False"
| "fless _ NaN = False"
| "fless PosInf _ = False"
| "fless _ NegInf = False"
| "fless NegInf _ = True"
| "fless _ PosInf = True"
| "fless x y = (fvalue x < fvalue y)"

fun fle :: "pyfloat \<Rightarrow> pyfloat \<Rightarrow> bool" where
  "fle NaN _ = False"
| "fle _ NaN = False"
| "fle NegInf _ = True"
| "fle _ PosInf = True"
| "fle PosInf _ = False"
| "fle _ NegInf = False"
| "fle x y = (fvalue x \<le> fvalue y)"

fun fsub :: "(real \<Rightarrow> pyfloat) \<Rightarrow> pyfloat \<Rightarrow> pyfloat \<Rightarrow> pyfloat" where
  "fsub rnd NaN _ = NaN"
| "fsub rnd _ NaN = NaN"
| "fsub rnd PosInf PosInf = NaN"
| "fsub rnd NegInf NegInf = NaN"
| "fsub rnd PosInf _ = PosInf"
| "fsub rnd NegInf _ = NegInf"
| "fsub rnd _ PosInf = NegInf"
| "fsub rnd _ NegInf = PosInf"
| "fsub rnd NegZero NegZero = Finite 0"
| "fsub rnd NegZero (Finite b) = (if b = 0 then NegZero else Finite (- b))"
| "fsub rnd (Finite a) NegZero = Finite a"
| "fsub rnd (Finite a) (Finite b) =
     (if b = 0 then Finite a
      else if a = 0 then Finite (- b)
      else if a = b then Finite 0
      else rnd (a - b))"

text \<open>\<open>bool(x)\<close> of a float: false for the two zeros only.\<close>

definition float_truth :: "pyfloat \<Rightarrow> bool" where
  "float_truth x = (x \<noteq> Finite 0 \<and> x \<noteq> NegZero)"

section \<open>The helpers of \<open>audio_recorder.py\<close>\<close>

text \<open>
  \<open>_safe_stem\<close> (an Isabelle name cannot begin with an underscore, so the leading one is
  dropped here and in the other helpers):
  \<^verbatim>\<open>
  stem = "".join(ch if ch.isalnum() or ch in "-_" else "_" for ch in name)
  return stem.strip("_") or "recording"
  \<close>
\<close>

definition safe_char :: "unicode_db \<Rightarrow> nat \<Rightarrow> nat" where
  "safe_char db ch = (if isalnum db ch \<or> ch \<in> set (lit ''-_'') then ch else of_char CHR ''_'')"

definition safe_stem :: "unicode_db \<Rightarrow> pystr \<Rightarrow> pystr" where
  "safe_stem db name =
     (let stem = map (safe_char db) name
      in str_or (strip (lit ''_'') stem) (lit ''recording''))"

text \<open>The characters \<open>_safe_stem\<close> lets through: alphanumerics, \<open>-\<close> and \<open>_\<close>.\<close>

definition allowed :: "unicode_db \<Rightarrow> nat \<Rightarrow> bool" where
  "allowed db ch = (isalnum db ch \<or> ch = of_char CHR ''-'' \<or> ch = of_char CHR ''_'')"


text \<open>
  \<open>_timestamp_name\<close>:
  \<^verbatim>\<open>
  ts = datetime.now().strftime("%Y-%m-%d_%H-%M-%S")
  return f"{prefix}_{ts}"
  \<close>
  The clock is an input of the model. \<open>%m\<close>, \<open>%d\<close>, \<open>%H\<close>, \<open>%M\<close> and \<open>%S\<close> are
  two digits wide; \<open>%Y\<close> is the year in decimal, four digits for every year from 1000 on.
\<close>

record datetime =
  year :: nat
  month :: nat
  day :: nat
  hour :: nat
  minute :: nat
  second :: nat
  microsecond :: nat

fun digits :: "nat \<Rightarrow> pystr" where
  "digits n = (if n < 10 then [48 + n] else digits (n div 10) @ [48 + n mod 10])"

definition two_digits :: "nat \<Rightarrow> pystr" where
  "two_digits n = (if n < 10 then 48 # digits n else digits n)"

definition strftime :: "datetime \<Rightarrow> pystr" where
  "strftime t =
     digits (year t) @ lit ''-'' @ two_digits (month t) @ lit ''-'' @ two_digits (day t)
     @ lit ''_'' @ two_digits (hour t) @ lit ''-'' @ two_digits (minute t)
     @ lit ''-'' @ two_digits (second t)"

definition timestamp_name :: "datetime \<Rightarrow> pystr \<Rightarrow> pystr" where
  "timestamp_name t prefix = prefix @ lit ''_'' @ strftime t"

section \<open>The parts of \<open>pathlib\<close> the handler uses\<close>

text \<open>
  \<open>Path(s).stem\<close> and \<open>Path(s).suffix\<close> as Python 3.12 computes them for a POSIX path
  (the interpreter the module's docstring names): the components are the pieces between
  \<open>/\<close> that are neither empty nor \<open>.\<close>, the name is the last component (empty when
  there is none), and the suffix starts at the last dot of the name unless that dot is its
  first or its last character.
\<close>

fun split_on :: "nat \<Rightarrow> pystr \<Rightarrow> pystr list" where
  "split_on sep [] = [[]]"
| "split_on sep (ch # rest) =
     (if ch = sep then [] # split_on sep rest
      else (case split_on sep rest of [] \<Rightarrow> [[ch]] | w # ws \<Rightarrow> (ch # w) # ws))"

definition path_name :: "pystr \<Rightarrow> pystr" where
  "path_name p =
     (let tail = filter (\<lambda>x. x \<noteq> [] \<and> x \<noteq> lit ''.'') (split_on (of_char CHR ''/'') p)
      in if tail = [] then [] else last tail)"

text \<open>\<open>s.rfind(ch)\<close>: the highest index at which \<open>ch\<close> occurs, \<open>-1\<close> when it does not.\<close>

definition rfind :: "nat \<Rightarrow> pystr \<Rightarrow> int" where
  "rfind ch s =
     (if ch \<in> set s
      then int (length s) - 1 - int (length (takeWhile (\<lambda>x. x \<noteq> ch) (rev s)))
      else - 1)"

definition path_suffix :: "pystr \<Rightarrow> pystr" where
  "path_suffix p =
     (let name = path_name p; i = rfind (of_char CHR ''.'') name
      in if 0 < i \<and> i < int (length name) - 1 then drop (nat i) name else [])"

definition path_stem :: "pystr \<Rightarrow> pystr" where
  "path_stem p =
     (let name = path_name p; i = rfind (of_char CHR ''.'') name
      in if 0 < i \<and> i < int (length name) - 1 then take (nat i) name else name)"

text \<open>
  \<open>str(d / name)\<close> for a directory \<open>d\<close> other than the root and a \<open>name\<close> that is a
  single component, which is how the handler forms every path it uses.
\<close>

definition path_join :: "pystr \<Rightarrow> pystr \<Rightarrow> pystr" where
  "path_join d name = d @ lit ''/'' @ name"

section \<open>Exceptions, processes and the outside world\<close>

text \<open>
  The exceptions are told apart as far as the \<open>except\<close> clauses of the handler do.
  \<open>OSError\<close> stands for an \<open>OSError\<close> that is not a \<open>FileNotFoundError\<close>,
  \<open>SubprocessError\<close> for one that is not a \<open>CalledProcessError\<close>, and
  \<open>OtherException\<close> for an exception of none of these classes (such as the
  \<open>DefaultCredentialsError\<close> or \<open>GoogleAPICallError\<close> of the storage client, which derive
  from \<open>Exception\<close> directly). Each carries its message, and a \<open>CalledProcessError\<close> the
  exit status and the command.
\<close>

datatype arg = Str pystr | FloatText pyfloat

type_synonym cmd = "arg list"

datatype exn =
    ImportError pystr
  | FileNotFoundError pystr
  | OSError pystr
  | CalledProcessError int cmd
  | SubprocessError pystr
  | OtherException pystr

fun is_ImportError :: "exn \<Rightarrow> bool" where
  "is_ImportError (ImportError _) = True"
| "is_ImportError _ = False"

fun is_FileNotFoundError :: "exn \<Rightarrow> bool" where
  "is_FileNotFoundError (FileNotFoundError _) = True"
| "is_FileNotFoundError _ = False"

fun is_OSError :: "exn \<Rightarrow> bool" where
  "is_OSError (FileNotFoundError _) = True"
| "is_OSError (OSError _) = True"
| "is_OSError _ = False"

fun is_CalledProcessError :: "exn \<Rightarrow> bool" where
  "is_CalledProcessError (CalledProcessError _ _) = True"
| "is_CalledProcessError _ = False"

fun is_SubprocessError :: "exn \<Rightarrow> bool" where
  "is_SubprocessError (CalledProcessError _ _) = True"
| "is_SubprocessError (SubprocessError _) = True"
| "is_SubprocessError _ = False"

text \<open>
  A text built by an f-string from a fixed prefix and an exception, as in
  \<open>f"ffmpeg not found: {exc}"\<close>, is kept as the pair of the two.
\<close>

datatype message = Plain pystr | WithExc pystr exn

text \<open>
  What \<open>subprocess.run\<close> meets: the launch raises, or the process runs and exits with a
  status and an error output. With \<open>check=True\<close> a nonzero status is raised as a
  \<open>CalledProcessError\<close>.
\<close>

datatype proc_result = Raises exn | Exited int pystr

text \<open>
  What \<open>Path.write_bytes\<close> meets: the file is written, or the call raises (a name the
  file system refuses, a full disk), leaving the path untouched or a file with part of the
  payload.
\<close>

datatype write_result = Written | WriteRaises exn "bytes option"

definition subprocess_run :: "bool \<Rightarrow> cmd \<Rightarrow> proc_result \<Rightarrow> exn + int \<times> pystr" where
  "subprocess_run check c r =
     (case r of
        Raises e \<Rightarrow> Inl e
      | Exited rc err \<Rightarrow> if check \<and> rc \<noteq> 0 then Inl (CalledProcessError rc c) else Inr (rc, err))"

text \<open>
  The environment of one request: the Unicode database, the rounding of the float format,
  the clock, the directory of the module, whether \<open>./ffmpeg\<close> exists and is executable,
  how the file system answers the write of a payload to a path, how the operating system
  answers a command handed to \<open>subprocess.run\<close>, what an encoder that ran leaves at its
  output path, what the import of the storage library, the construction of its client and
  the upload raise (if anything), the value of \<open>GOOGLE_CLOUD_BUCKET\<close>, and
  \<open>sys.executable\<close>. The write of the original and the calls the source wraps in \<open>try\<close>
  can raise; the read of the payload and the clock are taken to succeed.
\<close>

record env =
  udb :: unicode_db
  round_double :: "real \<Rightarrow> pyfloat"
  now :: datetime
  base_dir :: pystr
  local_ffmpeg :: bool
  write_bytes :: "pystr \<Rightarrow> bytes \<Rightarrow> write_result"
  run_proc :: "cmd \<Rightarrow> proc_result"
  encoder_output :: "bytes option"
  gcs_import :: "exn option"
  gcs_client :: "exn option"
  bucket_env :: "pystr option"
  gcs_upload :: "exn option"
  python_exe :: pystr

text \<open>
  The state the handler acts on: the files by path, the commands handed to
  \<open>subprocess.run\<close> in order, the calls of \<open>blob.upload_from_filename\<close> (bucket, blob
  name, local path) in order, and the lines printed to \<open>sys.stderr\<close>.
\<close>

record world =
  files :: "pystr \<rightharpoonup> bytes"
  run_calls :: "cmd list"
  gcs_calls :: "(pystr \<times> pystr \<times> pystr) list"
  stderr_log :: "message list"

definition log_line :: "message \<Rightarrow> world \<Rightarrow> world" where
  "log_line m w = w\<lparr>stderr_log := stderr_log w @ [m]\<rparr>"

section \<open>The upload handler\<close>

record request =
  filename :: "pystr option"
  content :: bytes
  name_base :: "pystr option"
  trim_start :: "pyfloat option"
  trim_end :: "pyfloat option"
  auto_upload_gcs :: "pystr option"
  auto_transcribe :: "pystr option"

text \<open>
  The handler ends by raising an \<open>HTTPException\<close> (status and detail), by letting an
  exception escape (the server answers 500), or by returning the JSON object, kept as
  the list of its keys and values in the order of the source.
\<close>

datatype failure = HTTPException nat message | Uncaught exn

datatype json = JStr pystr | JBool bool

type_synonym response = "(pystr \<times> json) list"

definition ffmpeg_bin :: "env \<Rightarrow> pystr" where
  "ffmpeg_bin e =
     (if local_ffmpeg e then path_join (base_dir e) (lit ''ffmpeg'') else lit ''ffmpeg'')"

definition recordings_dir :: "env \<Rightarrow> pystr" where
  "recordings_dir e = path_join (base_dir e) (lit ''recordings'')"

text \<open>\<open>a or b\<close> for an optional string and for an optional float with default \<open>0.0\<close>.\<close>

definition opt_or :: "pystr option \<Rightarrow> pystr \<Rightarrow> pystr" where
  "opt_or a b = (case a of None \<Rightarrow> b | Some s \<Rightarrow> str_or s b)"

definition float_or_zero :: "pyfloat option \<Rightarrow> pyfloat" where
  "float_or_zero a = (case a of None \<Rightarrow> Finite 0 | Some x \<Rightarrow> if float_truth x then x else Finite 0)"

text \<open>The names of one recording (lines 924 to 929 and 937 to 938 of the source).\<close>

definition stem_of :: "env \<Rightarrow> request \<Rightarrow> pystr \<Rightarrow> pystr" where
  "stem_of e rq fname =
     timestamp_name (now e)
       (safe_stem (udb e) (opt_or (name_base rq) (str_or (path_stem fname) (lit ''recording''))))"

definition original_ext :: "env \<Rightarrow> pystr \<Rightarrow> pystr" where
  "original_ext e fname = lower (udb e) (str_or (path_suffix fname) (lit ''.bin''))"

definition original_name :: "env \<Rightarrow> request \<Rightarrow> pystr \<Rightarrow> pystr" where
  "original_name e rq fname = stem_of e rq fname @ original_ext e fname"

definition mp3_name :: "env \<Rightarrow> request \<Rightarrow> pystr \<Rightarrow> pystr" where
  "mp3_name e rq fname = stem_of e rq fname @ lit ''.mp3''"

text \<open>The three checks of the trim values (lines 940 to 945).\<close>

definition trim_error :: "pyfloat option \<Rightarrow> pyfloat option \<Rightarrow> pystr option" where
  "trim_error ts te =
     (if (case ts of None \<Rightarrow> False | Some s \<Rightarrow> fless s (Finite 0))
      then Some (lit ''trim_start must be >= 0'')
      else if (case te of None \<Rightarrow> False | Some t \<Rightarrow> fless t (Finite 0))
      then Some (lit ''trim_end must be >= 0'')
      else if (case (ts, te) of (Some s, Some t) \<Rightarrow> fle t s | _ \<Rightarrow> False)
      then Some (lit ''trim_end must be > trim_start'')
      else None)"

text \<open>The command line of the encoder (lines 947 to 961 and 966 to 976).\<close>

definition ffmpeg_cmd ::
  "(real \<Rightarrow> pyfloat) \<Rightarrow> pystr \<Rightarrow> pystr \<Rightarrow> pyfloat option \<Rightarrow> pyfloat option \<Rightarrow> cmd" where
  "ffmpeg_cmd rnd ffmpeg original_path ts te =
     [Str ffmpeg, Str (lit ''-y''), Str (lit ''-v''), Str (lit ''error''), Str (lit ''-i''),
      Str original_path]
     @ (case ts of None \<Rightarrow> [] | Some s \<Rightarrow> [Str (lit ''-ss''), FloatText s])
     @ (case te of None \<Rightarrow> []
        | Some t \<Rightarrow> [Str (lit ''-t''), FloatText (fsub rnd t (float_or_zero ts))])"

definition encoder_args :: "pystr \<Rightarrow> cmd" where
  "encoder_args mp3_path =
     [Str (lit ''-vn''), Str (lit ''-ac''), Str (lit ''1''), Str (lit ''-ar''),
      Str (lit ''44100''), Str (lit ''-codec:a''), Str (lit ''libmp3lame''),
      Str (lit ''-qscale:a''), Str (lit ''3''), Str mp3_path]"

text \<open>
  The optional upload to the bucket (lines 988 to 1002): \<open>gcs_try\<close> is the body of the
  \<open>try\<close>, \<open>auto_gcs\<close> the test of the flag and the two \<open>except\<close> clauses. An
  exception of another class is not caught.
\<close>

definition gcs_try :: "env \<Rightarrow> world \<Rightarrow> pystr \<Rightarrow> pystr \<Rightarrow> (exn + bool) \<times> world" where
  "gcs_try e w name path =
     (case gcs_import e of Some x \<Rightarrow> (Inl x, w) | None \<Rightarrow>
      case gcs_client e of Some x \<Rightarrow> (Inl x, w) | None \<Rightarrow>
      case bucket_env e of None \<Rightarrow> (Inr False, w) | Some bucket \<Rightarrow>
      if bucket = [] then (Inr False, w)
      else let w' = w\<lparr>gcs_calls := gcs_calls w @ [(bucket, name, path)]\<rparr>
           in case gcs_upload e of Some x \<Rightarrow> (Inl x, w') | None \<Rightarrow> (Inr True, w'))"

definition auto_gcs ::
  "env \<Rightarrow> world \<Rightarrow> request \<Rightarrow> pystr \<Rightarrow> pystr \<Rightarrow> (exn + bool) \<times> world" where
  "auto_gcs e w rq name path =
     (if auto_upload_gcs rq = Some (lit ''1'')
      then (case gcs_try e w name path of
              (Inr done, w') \<Rightarrow> (Inr done, w')
            | (Inl x, w') \<Rightarrow>
                if is_ImportError x
                then (Inr False,
                      log_line (Plain (lit ''Google Cloud Storage library not installed; skipping auto-upload.'')) w')
                else if is_OSError x
                then (Inr False, log_line (WithExc (lit ''Auto GCS upload failed: '') x) w')
                else (Inl x, w'))
      else (Inr False, w))"

text \<open>The optional transcription (lines 1005 to 1018).\<close>

definition stt_cmd :: "env \<Rightarrow> pystr \<Rightarrow> cmd" where
  "stt_cmd e mp3_path =
     [Str (python_exe e), Str (path_join (base_dir e) (lit ''gc_stt.py'')), Str mp3_path]"

definition auto_stt :: "env \<Rightarrow> world \<Rightarrow> request \<Rightarrow> pystr \<Rightarrow> (exn + bool) \<times> world" where
  "auto_stt e w rq mp3_path =
     (if auto_transcribe rq = Some (lit ''1'')
      then (let c = stt_cmd e mp3_path;
                w' = w\<lparr>run_calls := run_calls w @ [c]\<rparr>
            in case subprocess_run False c (run_proc e c) of
                 Inr (rc, err) \<Rightarrow>
                   if rc = 0 then (Inr True, w')
                   else (Inr False, log_line (Plain (lit ''Auto transcription failed: '' @ err)) w')
               | Inl x \<Rightarrow>
                   if is_OSError x \<or> is_SubprocessError x
                   then (Inr False, log_line (WithExc (lit ''Auto transcription error: '') x) w')
                   else (Inl x, w'))
      else (Inr False, w))"

text \<open>
  The publish steps and the response (lines 985 to 1029). Both flags start out false; an
  exception that a publish step does not catch leaves the handler.
\<close>

definition json_response :: "pystr \<Rightarrow> pystr \<Rightarrow> bool \<Rightarrow> bool \<Rightarrow> response" where
  "json_response oname mname auto_gcs_uploaded auto_transcribed =
     [(lit ''original_filename'', JStr oname),
      (lit ''mp3_filename'', JStr mname),
      (lit ''original_url'', JStr (lit ''/recordings/'' @ oname)),
      (lit ''mp3_url'', JStr (lit ''/recordings/'' @ mname)),
      (lit ''auto_gcs_uploaded'', JBool auto_gcs_uploaded),
      (lit ''auto_transcribed'', JBool auto_transcribed)]"

definition publish ::
  "env \<Rightarrow> world \<Rightarrow> request \<Rightarrow> pystr \<Rightarrow> pystr \<Rightarrow> (failure + response) \<times> world" where
  "publish e w rq oname mname =
     (let mp3_path = path_join (recordings_dir e) mname
      in case auto_gcs e w rq mname mp3_path of
           (Inl x, w1) \<Rightarrow> (Inl (Uncaught x), w1)
         | (Inr auto_gcs_uploaded, w1) \<Rightarrow>
             (case auto_stt e w1 rq mp3_path of
                (Inl x, w2) \<Rightarrow> (Inl (Uncaught x), w2)
              | (Inr auto_transcribed, w2) \<Rightarrow>
                  (Inr (json_response oname mname auto_gcs_uploaded auto_transcribed), w2)))"

text \<open>
  The encoder run (lines 947 to 983): the command, \<open>ffmpeg_cmd\<close> followed by the fixed
  arguments, is handed to \<open>subprocess.run\<close> with \<open>check=True\<close>; an encoder that was
  started may have left its output at the MP3 path.
\<close>

definition encoder_cmd :: "env \<Rightarrow> request \<Rightarrow> pystr \<Rightarrow> pystr \<Rightarrow> cmd" where
  "encoder_cmd e rq oname mname =
     ffmpeg_cmd (round_double e) (ffmpeg_bin e) (path_join (recordings_dir e) oname)
       (trim_start rq) (trim_end rq)
     @ encoder_args (path_join (recordings_dir e) mname)"

definition run_encoder :: "env \<Rightarrow> world \<Rightarrow> cmd \<Rightarrow> pystr \<Rightarrow> (exn + unit) \<times> world" where
  "run_encoder e w c mp3_path =
     (let w1 = w\<lparr>run_calls := run_calls w @ [c]\<rparr>;
          w2 = (case (run_proc e c, encoder_output e) of
                  (Exited _ _, Some b) \<Rightarrow> w1\<lparr>files := (files w1)(mp3_path \<mapsto> b)\<rparr>
                | _ \<Rightarrow> w1)
      in case subprocess_run True c (run_proc e c) of
           Inl x \<Rightarrow> (Inl x, w2)
         | Inr _ \<Rightarrow> (Inr (), w2))"

definition encode ::
  "env \<Rightarrow> world \<Rightarrow> request \<Rightarrow> pystr \<Rightarrow> pystr \<Rightarrow> (failure + response) \<times> world" where
  "encode e w rq oname mname =
     (case run_encoder e w (encoder_cmd e rq oname mname) (path_join (recordings_dir e) mname) of
        (Inl x, w2) \<Rightarrow>
          if is_FileNotFoundError x
          then (Inl (HTTPException 500 (WithExc (lit ''ffmpeg not found: '') x)), w2)
          else if is_CalledProcessError x
          then (Inl (HTTPException 500 (WithExc (lit ''ffmpeg failed: '') x)), w2)
          else (Inl (Uncaught x), w2)
      | (Inr _, w2) \<Rightarrow> publish e w2 rq oname mname)"

text \<open>
  \<open>upload\<close> (lines 912 to 1029): the filename check, the names, the payload check, the
  write of the original (outside any \<open>try\<close>: what it raises leaves the handler), the
  trim checks, then the encoder and the publish steps.
\<close>

definition upload :: "env \<Rightarrow> world \<Rightarrow> request \<Rightarrow> (failure + response) \<times> world" where
  "upload e w rq =
     (case filename rq of
        None \<Rightarrow> (Inl (HTTPException 400 (Plain (lit ''missing filename''))), w)
      | Some fname \<Rightarrow>
          if fname = [] then (Inl (HTTPException 400 (Plain (lit ''missing filename''))), w)
          else
            let oname = original_name e rq fname;
                original_path = path_join (recordings_dir e) oname
            in if content rq = []
               then (Inl (HTTPException 400 (Plain (lit ''empty upload''))), w)
               else
                 case write_bytes e original_path (content rq) of
                   WriteRaises x None \<Rightarrow> (Inl (Uncaught x), w)
                 | WriteRaises x (Some part) \<Rightarrow>
                     (Inl (Uncaught x), w\<lparr>files := (files w)(original_path \<mapsto> part)\<rparr>)
                 | Written \<Rightarrow>
                     let w1 = w\<lparr>files := (files w)(original_path \<mapsto> content rq)\<rparr>;
                         mname = mp3_name e rq fname
                     in case trim_error (trim_start rq) (trim_end rq) of
                          Some reason \<Rightarrow> (Inl (HTTPException 400 (Plain reason)), w1)
                        | None \<Rightarrow> encode e w1 rq oname mname)"

section \<open>Sample inputs\<close>

text \<open>
  An environment with working collaborators, an empty world and a plain request, from
  which the concrete instances below are obtained by record update. The sample rounding
  is exact, which is what the format does on the small integers used below.
\<close>

definition ascii_db :: unicode_db where
  "ascii_db = \<lparr>isalnum_hi = (\<lambda>_. False), lower_hi = (\<lambda>s i. [s ! i])\<rparr>"

definition sample_env :: env where
  "sample_env =
     \<lparr>udb = ascii_db,
      round_double = Finite,
      now = \<lparr>year = 2025, month = 1, day = 4, hour = 9, minute = 30, second = 7,
             microsecond = 0\<rparr>,
      base_dir = lit ''/app'',
      local_ffmpeg = False,
      write_bytes = (\<lambda>_ _. Written),
      run_proc = (\<lambda>_. Exited 0 []),
      encoder_output = Some [0],
      gcs_import = None,
      gcs_client = None,
      bucket_env = Some (lit ''b''),
      gcs_upload = None,
      python_exe = lit ''python''\<rparr>"

definition empty_world :: world where
  "empty_world = \<lparr>files = Map.empty, run_calls = [], gcs_calls = [], stderr_log = []\<rparr>"

definition sample_request :: request where
  "sample_request =
     \<lparr>filename = Some (lit ''demo.wav''),
      content = [1],
      name_base = Some (lit ''session''),
      trim_start = None,
      trim_end = None,
      auto_upload_gcs = None,
      auto_transcribe = None\<rparr>"

section \<open>Properties of the stem sanitizer\<close>

lemma lit_dash_underscore: "set (lit ''-_'') = {45, 95}"
  by (auto simp: lit_def)

lemma lit_underscore: "set (lit ''_'') = {95}"
  by (simp add: lit_def)

lemma allowed_iff: "allowed db ch \<longleftrightarrow> isalnum db ch \<or> ch = 45 \<or> ch = 95"
  by (simp add: allowed_def)

lemma safe_char_allowed: "allowed db (safe_char db ch)"
  by (simp add: safe_char_def allowed_iff lit_dash_underscore)

lemma safe_char_fixed: "allowed db ch \<Longrightarrow> safe_char db ch = ch"
  by (auto simp: safe_char_def allowed_iff lit_dash_underscore)

lemma safe_char_disallowed: "\<not> allowed db ch \<Longrightarrow> safe_char db ch = 95"
  by (auto simp: safe_char_def allowed_iff lit_dash_underscore)

lemma strip_subset: "set (strip chars s) \<subseteq> set s"
proof -
  have "set (dropWhile (\<lambda>c. c \<in> set chars) (rev (dropWhile (\<lambda>c. c \<in> set chars) s)))
          \<subseteq> set (rev (dropWhile (\<lambda>c. c \<in> set chars) s))"
    by (rule set_dropWhileD [THEN subsetI])
  also have "\<dots> \<subseteq> set s"
    using set_dropWhileD [of _ "\<lambda>c. c \<in> set chars" s] by auto
  finally show ?thesis by (simp add: strip_def)
qed

lemma dropWhile_all: "\<forall>x \<in> set xs. P x \<Longrightarrow> dropWhile P xs = []"
  by (induction xs) simp_all

lemma strip_all_in:
  assumes "set s \<subseteq> set chars"
  shows "strip chars s = []"
proof -
  have "dropWhile (\<lambda>c. c \<in> set chars) s = []"
    using assms by (intro dropWhile_all) auto
  then show ?thesis by (simp only: strip_def rev.simps dropWhile.simps)
qed

lemma dropWhile_hd_fixed: "xs = [] \<or> \<not> P (hd xs) \<Longrightarrow> dropWhile P xs = xs"
  by (cases xs) auto

lemma strip_fixed:
  assumes "s \<noteq> []" and "hd s \<notin> set chars" and "last s \<notin> set chars"
  shows "strip chars s = s"
proof -
  have front: "dropWhile (\<lambda>c. c \<in> set chars) s = s"
    using assms by (simp add: dropWhile_hd_fixed)
  have "hd (rev s) \<notin> set chars"
    using assms by (simp add: hd_rev)
  then have "dropWhile (\<lambda>c. c \<in> set chars) (rev s) = rev s"
    by (simp add: dropWhile_hd_fixed)
  with front show ?thesis by (simp add: strip_def)
qed

lemma strip_ends:
  assumes "strip chars s \<noteq> []"
  shows "hd (strip chars s) \<notin> set chars \<and> last (strip chars s) \<notin> set chars"
proof -
  let ?P = "\<lambda>c. c \<in> set chars"
  let ?t = "dropWhile ?P s"
  let ?u = "dropWhile ?P (rev ?t)"
  have u: "?u \<noteq> []" using assms by (simp add: strip_def)
  then have last_ok: "\<not> ?P (hd ?u)" by (rule hd_dropWhile)
  have t: "?t \<noteq> []"
    using u by (metis dropWhile.simps(1) rev.simps(1))
  then have hd_t: "\<not> ?P (hd ?t)" by (rule hd_dropWhile)
  have "rev ?t = takeWhile ?P (rev ?t) @ ?u" by simp
  then have "?t = rev ?u @ rev (takeWhile ?P (rev ?t))"
    by (metis rev_append rev_rev_ident)
  then have "hd ?t = hd (rev ?u)"
    using u by (metis hd_append2 rev_is_Nil_conv)
  with hd_t last_ok u show ?thesis
    by (simp add: strip_def last_rev)
qed

lemma lit_recording: "lit ''recording'' = [114, 101, 99, 111, 114, 100, 105, 110, 103]"
  by (simp add: lit_def)

lemma recording_allowed: "\<forall>ch \<in> set (lit ''recording''). allowed db ch"
  by (simp add: lit_recording allowed_iff isalnum_def)

lemma safe_stem_allowed: "\<forall>ch \<in> set (safe_stem db s). allowed db ch"
proof (cases "strip (lit ''_'') (map (safe_char db) s) = []")
  case True
  then show ?thesis
    using recording_allowed by (simp add: safe_stem_def str_or_def)
next
  case False
  have "set (strip (lit ''_'') (map (safe_char db) s)) \<subseteq> set (map (safe_char db) s)"
    by (rule strip_subset)
  then have "\<forall>ch \<in> set (strip (lit ''_'') (map (safe_char db) s)). allowed db ch"
    using safe_char_allowed by auto
  with False show ?thesis by (simp add: safe_stem_def str_or_def)
qed

lemma safe_stem_ends:
  "safe_stem db s \<noteq> [] \<and> hd (safe_stem db s) \<noteq> 95 \<and> last (safe_stem db s) \<noteq> 95"
proof (cases "strip (lit ''_'') (map (safe_char db) s) = []")
  case True
  then show ?thesis by (simp add: safe_stem_def str_or_def lit_recording)
next
  case False
  with strip_ends [OF False] show ?thesis
    by (simp add: safe_stem_def str_or_def lit_underscore)
qed

lemma safe_stem_idem: "safe_stem db (safe_stem db s) = safe_stem db s"
proof -
  let ?r = "safe_stem db s"
  have "map (safe_char db) ?r = ?r"
    using safe_stem_allowed [of db s] by (simp add: safe_char_fixed map_idI)
  moreover have "strip (lit ''_'') ?r = ?r"
    using safe_stem_ends [of db s] by (intro strip_fixed) (simp_all add: lit_underscore)
  moreover have "?r \<noteq> []" using safe_stem_ends [of db s] by simp
  ultimately show ?thesis
    by (simp add: safe_stem_def [of db "safe_stem db s"] str_or_def)
qed

lemma safe_stem_fallback:
  assumes "\<forall>ch \<in> set s. \<not> allowed db ch"
  shows "safe_stem db s = lit ''recording''"
proof -
  have "set (map (safe_char db) s) \<subseteq> set (lit ''_'')"
    using assms by (auto simp: safe_char_disallowed lit_underscore)
  then have "strip (lit ''_'') (map (safe_char db) s) = []"
    by (rule strip_all_in)
  then show ?thesis by (simp add: safe_stem_def str_or_def)
qed

text \<open>
  C6. The stem sanitizer is idempotent, \<open>_safe_stem(_safe_stem(s)) = _safe_stem(s)\<close> for
  every string \<open>s\<close>; a name base made only of disallowed characters (no alphanumeric,
  no \<open>-\<close>, no \<open>_\<close>) is sanitized to the default token \<open>recording\<close>; and the result
  always consists of alphanumeric characters, \<open>-\<close> and \<open>_\<close> only.
\<close>

theorem safe_stem_idempotent_fallback_alphabet:
  "safe_stem db (safe_stem db s) = safe_stem db s
   \<and> ((\<forall>ch \<in> set s. \<not> allowed db ch) \<longrightarrow> safe_stem db s = lit ''recording'')
   \<and> (\<forall>ch \<in> set (safe_stem db s). allowed db ch)"
  using safe_stem_idem safe_stem_fallback safe_stem_allowed by blast

theorem safe_stem_idempotent_fallback_alphabet_witness:
  "list_all (\<lambda>ch. \<not> allowed ascii_db ch) (lit ''!?'')
   \<and> safe_stem ascii_db (lit ''!?'') = lit ''recording''
   \<and> safe_stem ascii_db (safe_stem ascii_db (lit ''!?'')) = safe_stem ascii_db (lit ''!?'')
   \<and> list_all (allowed ascii_db) (safe_stem ascii_db (lit ''!?''))"
proof -
  have "\<forall>ch \<in> set (lit ''!?''). \<not> allowed ascii_db ch"
    by (simp add: lit_def allowed_iff isalnum_def)
  with safe_stem_idempotent_fallback_alphabet [of ascii_db "lit ''!?''"]
  show ?thesis unfolding list_all_iff by blast
qed

section \<open>The steps of the handler\<close>

lemma trim_error_order: "fle te ts \<Longrightarrow> \<exists>d. trim_error (Some ts) (Some te) = Some d"
  by (simp add: trim_error_def)

lemma trim_error_valid_pair:
  "fle (Finite 0) ts \<Longrightarrow> fless ts te \<Longrightarrow> trim_error (Some ts) (Some te) = None"
  by (cases ts; cases te) (simp_all add: trim_error_def)

lemma trim_error_end_only: "fle (Finite 0) te \<Longrightarrow> trim_error None (Some te) = None"
  by (cases te) (simp_all add: trim_error_def)

lemma upload_reject:
  "filename rq = None \<or> filename rq = Some [] \<or> content rq = [] \<Longrightarrow>
   snd (upload e w rq) = w \<and>
   (fst (upload e w rq) = Inl (HTTPException 400 (Plain (lit ''missing filename'')))
    \<or> fst (upload e w rq) = Inl (HTTPException 400 (Plain (lit ''empty upload''))))"
  by (auto simp: upload_def Let_def split: option.splits)

lemma upload_write_raises:
  assumes "filename rq = Some f" "f \<noteq> []" "content rq \<noteq> []"
    and "write_bytes e (path_join (recordings_dir e) (original_name e rq f)) (content rq)
         = WriteRaises x left"
  shows "fst (upload e w rq) = Inl (Uncaught x)"
    and "run_calls (snd (upload e w rq)) = run_calls w"
    and "gcs_calls (snd (upload e w rq)) = gcs_calls w"
    and "left = None \<Longrightarrow> snd (upload e w rq) = w"
  using assms by (simp_all add: upload_def Let_def split: option.splits)

lemma upload_trim_reject:
  assumes "filename rq = Some f" "f \<noteq> []" "content rq \<noteq> []"
    and "write_bytes e (path_join (recordings_dir e) (original_name e rq f)) (content rq) = Written"
    and "trim_error (trim_start rq) (trim_end rq) = Some d"
  shows "upload e w rq =
     (Inl (HTTPException 400 (Plain d)),
      w\<lparr>files := (files w)(path_join (recordings_dir e) (original_name e rq f) \<mapsto> content rq)\<rparr>)"
  using assms by (simp add: upload_def Let_def)

lemma upload_encode:
  assumes "filename rq = Some f" "f \<noteq> []" "content rq \<noteq> []"
    and "write_bytes e (path_join (recordings_dir e) (original_name e rq f)) (content rq) = Written"
    and "trim_error (trim_start rq) (trim_end rq) = None"
  shows "upload e w rq =
     encode e (w\<lparr>files := (files w)(path_join (recordings_dir e) (original_name e rq f) \<mapsto> content rq)\<rparr>)
       rq (original_name e rq f) (mp3_name e rq f)"
  using assms by (simp add: upload_def Let_def)

lemma auto_gcs_frame:
  "run_calls (snd (auto_gcs e w rq n p)) = run_calls w \<and> files (snd (auto_gcs e w rq n p)) = files w"
  by (simp add: auto_gcs_def gcs_try_def log_line_def Let_def split: option.splits sum.splits prod.splits)

lemma auto_gcs_off:
  "auto_upload_gcs rq \<noteq> Some (lit ''1'') \<Longrightarrow> auto_gcs e w rq n p = (Inr False, w)"
  by (simp add: auto_gcs_def)

lemma auto_stt_frame:
  "files (snd (auto_stt e w rq p)) = files w \<and> gcs_calls (snd (auto_stt e w rq p)) = gcs_calls w"
  by (simp add: auto_stt_def log_line_def Let_def split: option.splits sum.splits prod.splits)

lemma auto_stt_off:
  "auto_transcribe rq \<noteq> Some (lit ''1'') \<Longrightarrow> auto_stt e w rq p = (Inr False, w)"
  by (simp add: auto_stt_def)

lemma auto_stt_run_calls: "\<exists>rest. run_calls (snd (auto_stt e w rq p)) = run_calls w @ rest"
  by (simp add: auto_stt_def log_line_def Let_def split: option.splits sum.splits prod.splits)

lemma publish_no_flags:
  assumes "auto_upload_gcs rq \<noteq> Some (lit ''1'')" "auto_transcribe rq \<noteq> Some (lit ''1'')"
  shows "publish e w rq oname mname = (Inr (json_response oname mname False False), w)"
  using assms by (simp add: publish_def Let_def auto_gcs_off auto_stt_off)

lemma publish_result:
  "(\<exists>x. fst (publish e w rq oname mname) = Inl (Uncaught x))
   \<or> (\<exists>g t. fst (publish e w rq oname mname) = Inr (json_response oname mname g t))"
  by (auto simp: publish_def Let_def split: sum.splits prod.splits)

lemma publish_frame:
  "files (snd (publish e w rq oname mname)) = files w
   \<and> (\<exists>rest. run_calls (snd (publish e w rq oname mname)) = run_calls w @ rest)"
proof -
  let ?p = "path_join (recordings_dir e) mname"
  obtain r1 w1 where a: "auto_gcs e w rq mname ?p = (r1, w1)" by force
  obtain r2 w2 where b: "auto_stt e w1 rq ?p = (r2, w2)" by force
  have f1: "files w1 = files w" "run_calls w1 = run_calls w"
    using auto_gcs_frame [of e w rq mname ?p] a by simp_all
  have f2: "files w2 = files w1" using auto_stt_frame [of e w1 rq ?p] b by simp
  obtain rest where r: "run_calls w2 = run_calls w1 @ rest"
    using auto_stt_run_calls [of e w1 rq ?p] b by auto
  show ?thesis
    using a b f1 f2 r by (cases r1; cases r2) (simp_all add: publish_def Let_def)
qed


lemma run_encoder_frame:
  assumes "run_encoder e w c p = (r, w2)"
  shows "run_calls w2 = run_calls w @ [c]" and "gcs_calls w2 = gcs_calls w"
    and "q \<noteq> p \<Longrightarrow> files w2 q = files w q" and "dom (files w) \<subseteq> dom (files w2)"
  using assms
  by (auto simp: run_encoder_def Let_def split: proc_result.splits option.splits sum.splits)

lemma run_encoder_raises:
  "run_proc e c = Raises x \<Longrightarrow>
   run_encoder e w c p = (Inl x, w\<lparr>run_calls := run_calls w @ [c]\<rparr>)"
  by (simp add: run_encoder_def Let_def subprocess_run_def)

lemma encode_raises:
  assumes "run_proc e (encoder_cmd e rq oname mname) = Raises x"
  shows "encode e w rq oname mname =
     (if is_FileNotFoundError x then Inl (HTTPException 500 (WithExc (lit ''ffmpeg not found: '') x))
      else if is_CalledProcessError x then Inl (HTTPException 500 (WithExc (lit ''ffmpeg failed: '') x))
      else Inl (Uncaught x),
      w\<lparr>run_calls := run_calls w @ [encoder_cmd e rq oname mname]\<rparr>)"
  using assms by (simp add: encode_def run_encoder_raises)

lemma encode_result:
  "(\<exists>m. fst (encode e w rq oname mname) = Inl (HTTPException 500 m))
   \<or> (\<exists>x. fst (encode e w rq oname mname) = Inl (Uncaught x))
   \<or> (\<exists>g t. fst (encode e w rq oname mname) = Inr (json_response oname mname g t))"
proof -
  obtain r w2 where a:
    "run_encoder e w (encoder_cmd e rq oname mname) (path_join (recordings_dir e) mname) = (r, w2)"
    by force
  show ?thesis
    using a publish_result [of e w2 rq oname mname]
    by (cases r) (auto simp: encode_def)
qed

lemma encode_frame:
  "(\<exists>rest. run_calls (snd (encode e w rq oname mname))
           = run_calls w @ encoder_cmd e rq oname mname # rest)
   \<and> dom (files w) \<subseteq> dom (files (snd (encode e w rq oname mname)))
   \<and> (q \<noteq> path_join (recordings_dir e) mname \<longrightarrow>
        files (snd (encode e w rq oname mname)) q = files w q)"
proof -
  obtain r w2 where a:
    "run_encoder e w (encoder_cmd e rq oname mname) (path_join (recordings_dir e) mname) = (r, w2)"
    by force
  note fr = run_encoder_frame [OF a]
  show ?thesis
  proof (cases r)
    case (Inl x)
    with a fr show ?thesis by (simp add: encode_def)
  next
    case (Inr u)
    with a fr publish_frame [of e w2 rq oname mname] show ?thesis
      by (auto simp: encode_def)
  qed
qed

lemma encode_no_flags:
  assumes "auto_upload_gcs rq \<noteq> Some (lit ''1'')" "auto_transcribe rq \<noteq> Some (lit ''1'')"
  shows "run_calls (snd (encode e w rq oname mname)) = run_calls w @ [encoder_cmd e rq oname mname]
    \<and> gcs_calls (snd (encode e w rq oname mname)) = gcs_calls w
    \<and> (\<forall>r. fst (encode e w rq oname mname) = Inr r \<longrightarrow> r = json_response oname mname False False)"
proof -
  obtain r w2 where a:
    "run_encoder e w (encoder_cmd e rq oname mname) (path_join (recordings_dir e) mname) = (r, w2)"
    by force
  note fr = run_encoder_frame [OF a]
  show ?thesis
  proof (cases r)
    case (Inl x)
    with a fr show ?thesis by (simp add: encode_def)
  next
    case (Inr u)
    with a fr assms show ?thesis
      by (simp add: encode_def publish_no_flags)
  qed
qed


section \<open>Sample evaluations\<close>

lemma sample_path:
  "path_join (recordings_dir sample_env) (original_name sample_env sample_request (lit ''demo.wav''))
   = lit ''/app/recordings/session_2025-01-04_09-30-07.wav''"
  by code_simp

section \<open>Rejected requests\<close>

text \<open>
  C5. An upload whose payload is empty fails with status 400, whatever the other fields
  are: with the detail \<open>missing filename\<close> when the filename is missing too, with the
  detail \<open>empty upload\<close> otherwise. Nothing is written, run or logged.
\<close>

theorem empty_payload_is_bad_request:
  "content rq = [] \<Longrightarrow>
   (fst (upload e w rq) = Inl (HTTPException 400 (Plain (lit ''missing filename'')))
    \<or> fst (upload e w rq) = Inl (HTTPException 400 (Plain (lit ''empty upload''))))
   \<and> snd (upload e w rq) = w"
  using upload_reject [of rq e w] by blast

theorem empty_payload_is_bad_request_witness:
  "content (sample_request\<lparr>content := [], trim_end := Some (Finite 3)\<rparr>) = []
   \<and> fst (upload sample_env empty_world (sample_request\<lparr>content := [], trim_end := Some (Finite 3)\<rparr>))
       = Inl (HTTPException 400 (Plain (lit ''empty upload'')))
   \<and> snd (upload sample_env empty_world (sample_request\<lparr>content := [], trim_end := Some (Finite 3)\<rparr>))
       = empty_world"
proof -
  let ?rq = "sample_request\<lparr>content := [], trim_end := Some (Finite 3)\<rparr>"
  have h: "content ?rq = []" by simp
  have v: "fst (upload sample_env empty_world ?rq)
           = Inl (HTTPException 400 (Plain (lit ''empty upload'')))"
    by code_simp
  from empty_payload_is_bad_request [OF h, of sample_env empty_world] h v
  show ?thesis by blast
qed

text \<open>
  C1, as the code has it. An upload with both trim values and
  \<open>trim_end \<le> trim_start\<close> never reaches the encoder: no command is run and nothing is
  uploaded. It fails with status 400, unless the write of the original itself raises, in
  which case that exception ends the request. The trim values are checked after the
  original has been written, so when the filename and the payload are present and the
  write succeeds, the original file is in the recordings directory; it is the only file
  the request writes. A request without filename or payload changes nothing.
\<close>

theorem trim_order_rejected_original_kept:
  assumes "trim_start rq = Some ts" and "trim_end rq = Some te" and "fle te ts"
  shows "run_calls (snd (upload e w rq)) = run_calls w
     \<and> gcs_calls (snd (upload e w rq)) = gcs_calls w
     \<and> ((\<exists>d. fst (upload e w rq) = Inl (HTTPException 400 (Plain d)))
         \<or> (\<exists>f x left. filename rq = Some f
               \<and> write_bytes e (path_join (recordings_dir e) (original_name e rq f)) (content rq)
                   = WriteRaises x left
               \<and> fst (upload e w rq) = Inl (Uncaught x)))
     \<and> (\<forall>f. filename rq = Some f \<and> f \<noteq> [] \<and> content rq \<noteq> []
             \<and> write_bytes e (path_join (recordings_dir e) (original_name e rq f)) (content rq)
                 = Written \<longrightarrow>
           (\<exists>d. fst (upload e w rq) = Inl (HTTPException 400 (Plain d)))
           \<and> files (snd (upload e w rq))
               = (files w)(path_join (recordings_dir e) (original_name e rq f) \<mapsto> content rq))
     \<and> (filename rq = None \<or> filename rq = Some [] \<or> content rq = [] \<longrightarrow>
           snd (upload e w rq) = w)"
proof (cases "filename rq = None \<or> filename rq = Some [] \<or> content rq = []")
  case True
  from upload_reject [OF True, of e w] True show ?thesis by auto
next
  case False
  then obtain f where f: "filename rq = Some f" "f \<noteq> []" "content rq \<noteq> []" by auto
  obtain d where d: "trim_error (trim_start rq) (trim_end rq) = Some d"
    using assms trim_error_order [of te ts] by auto
  show ?thesis
  proof (cases "write_bytes e (path_join (recordings_dir e) (original_name e rq f)) (content rq)")
    case Written
    from upload_trim_reject [OF f Written d, of w] f Written show ?thesis by simp
  next
    case (WriteRaises x left)
    from upload_write_raises(1-3) [OF f WriteRaises, of w] f WriteRaises show ?thesis by auto
  qed
qed

theorem trim_order_rejected_original_kept_witness:
  "trim_start (sample_request\<lparr>trim_start := Some (Finite 2), trim_end := Some (Finite 1)\<rparr>)
     = Some (Finite 2)
   \<and> trim_end (sample_request\<lparr>trim_start := Some (Finite 2), trim_end := Some (Finite 1)\<rparr>)
     = Some (Finite 1)
   \<and> fle (Finite 1) (Finite 2)
   \<and> filename (sample_request\<lparr>trim_start := Some (Finite 2), trim_end := Some (Finite 1)\<rparr>)
     = Some (lit ''demo.wav'')
   \<and> write_bytes sample_env (lit ''/app/recordings/session_2025-01-04_09-30-07.wav'') [1] = Written
   \<and> (\<exists>d. fst (upload sample_env empty_world
                 (sample_request\<lparr>trim_start := Some (Finite 2), trim_end := Some (Finite 1)\<rparr>))
            = Inl (HTTPException 400 (Plain d)))
   \<and> run_calls (snd (upload sample_env empty_world
                       (sample_request\<lparr>trim_start := Some (Finite 2), trim_end := Some (Finite 1)\<rparr>)))
       = []
   \<and> files (snd (upload sample_env empty_world
                    (sample_request\<lparr>trim_start := Some (Finite 2), trim_end := Some (Finite 1)\<rparr>)))
       = [lit ''/app/recordings/session_2025-01-04_09-30-07.wav'' \<mapsto> [1]]"
proof -
  let ?rq = "sample_request\<lparr>trim_start := Some (Finite 2), trim_end := Some (Finite 1)\<rparr>"
  let ?p = "path_join (recordings_dir sample_env) (original_name sample_env ?rq (lit ''demo.wav''))"
  have h: "trim_start ?rq = Some (Finite 2)" "trim_end ?rq = Some (Finite 1)"
    "fle (Finite 1) (Finite 2)"
    by simp_all
  have f: "filename ?rq = Some (lit ''demo.wav'')" "content ?rq = [1]"
    by (simp_all add: sample_request_def)
  have l: "lit ''demo.wav'' \<noteq> []" "content ?rq \<noteq> []"
    by (simp_all add: lit_def sample_request_def)
  have p: "?p = lit ''/app/recordings/session_2025-01-04_09-30-07.wav''"
    by code_simp
  have wr: "write_bytes sample_env ?p (content ?rq) = Written"
    "write_bytes sample_env (lit ''/app/recordings/session_2025-01-04_09-30-07.wav'') [1] = Written"
    by (simp_all add: sample_env_def)
  have w: "files empty_world = Map.empty" "run_calls empty_world = []"
    by (simp_all add: empty_world_def)
  note th = trim_order_rejected_original_kept [OF h, of sample_env empty_world]
  from th f l wr(1)
  have "(\<exists>d. fst (upload sample_env empty_world ?rq) = Inl (HTTPException 400 (Plain d)))
     \<and> files (snd (upload sample_env empty_world ?rq)) = (files empty_world)(?p \<mapsto> content ?rq)"
    by blast
  then have "\<exists>d. fst (upload sample_env empty_world ?rq) = Inl (HTTPException 400 (Plain d))"
    and "files (snd (upload sample_env empty_world ?rq))
         = [lit ''/app/recordings/session_2025-01-04_09-30-07.wav'' \<mapsto> [1]]"
    by (simp_all add: p f w)
  moreover from th have "run_calls (snd (upload sample_env empty_world ?rq)) = []"
    by (simp add: w)
  ultimately show ?thesis using h f wr(2) by blast
qed

theorem trim_order_rejection_writes_original_counterexample:
  "trim_start (sample_request\<lparr>trim_start := Some (Finite 2), trim_end := Some (Finite 1)\<rparr>)
     = Some (Finite 2)
   \<and> trim_end (sample_request\<lparr>trim_start := Some (Finite 2), trim_end := Some (Finite 1)\<rparr>)
     = Some (Finite 1)
   \<and> fle (Finite 1) (Finite 2)
   \<and> fst (upload sample_env empty_world
            (sample_request\<lparr>trim_start := Some (Finite 2), trim_end := Some (Finite 1)\<rparr>))
       = Inl (HTTPException 400 (Plain (lit ''trim_end must be > trim_start'')))
   \<and> files empty_world (lit ''/app/recordings/session_2025-01-04_09-30-07.wav'') = None
   \<and> files (snd (upload sample_env empty_world
                    (sample_request\<lparr>trim_start := Some (Finite 2), trim_end := Some (Finite 1)\<rparr>)))
         (lit ''/app/recordings/session_2025-01-04_09-30-07.wav'') = Some [1]"
  by code_simp

section \<open>The encoder command\<close>

lemma fsub_rounds:
  "a \<noteq> 0 \<Longrightarrow> b \<noteq> 0 \<Longrightarrow> a \<noteq> b \<Longrightarrow> fsub rnd (Finite a) (Finite b) = rnd (a - b)"
  by simp

lemma duration_both:
  "fle (Finite 0) ts \<Longrightarrow> fless ts te \<Longrightarrow> fsub rnd te (float_or_zero (Some ts)) = fsub rnd te ts"
  by (cases ts; cases te) (auto simp: float_or_zero_def float_truth_def)

lemma duration_end_only: "fle (Finite 0) te \<Longrightarrow> fsub rnd te (float_or_zero None) = te"
  by (cases te) (simp_all add: float_or_zero_def)

lemma encoder_cmd_both:
  "trim_start rq = Some ts \<Longrightarrow> trim_end rq = Some te \<Longrightarrow> fle (Finite 0) ts \<Longrightarrow> fless ts te \<Longrightarrow>
   encoder_cmd e rq oname mname =
     [Str (ffmpeg_bin e), Str (lit ''-y''), Str (lit ''-v''), Str (lit ''error''), Str (lit ''-i''),
      Str (path_join (recordings_dir e) oname),
      Str (lit ''-ss''), FloatText ts, Str (lit ''-t''), FloatText (fsub (round_double e) te ts),
      Str (lit ''-vn''), Str (lit ''-ac''), Str (lit ''1''), Str (lit ''-ar''), Str (lit ''44100''),
      Str (lit ''-codec:a''), Str (lit ''libmp3lame''), Str (lit ''-qscale:a''), Str (lit ''3''),
      Str (path_join (recordings_dir e) mname)]"
  by (simp add: encoder_cmd_def ffmpeg_cmd_def encoder_args_def duration_both)

lemma encoder_cmd_end_only:
  "trim_start rq = None \<Longrightarrow> trim_end rq = Some te \<Longrightarrow> fle (Finite 0) te \<Longrightarrow>
   encoder_cmd e rq oname mname =
     [Str (ffmpeg_bin e), Str (lit ''-y''), Str (lit ''-v''), Str (lit ''error''), Str (lit ''-i''),
      Str (path_join (recordings_dir e) oname),
      Str (lit ''-t''), FloatText te,
      Str (lit ''-vn''), Str (lit ''-ac''), Str (lit ''1''), Str (lit ''-ar''), Str (lit ''44100''),
      Str (lit ''-codec:a''), Str (lit ''libmp3lame''), Str (lit ''-qscale:a''), Str (lit ''3''),
      Str (path_join (recordings_dir e) mname)]"
  by (simp add: encoder_cmd_def ffmpeg_cmd_def encoder_args_def duration_end_only)

lemma path_join_not_flag: "[45, 115, 115] \<noteq> path_join d n"
proof
  assume a: "[45, 115, 115] = path_join d n"
  have "47 \<in> set (path_join d n)" by (simp add: path_join_def lit_def)
  with a have "(47 :: nat) \<in> set [45, 115, 115]" by simp
  then show False by simp
qed

lemma ffmpeg_bin_not_flag: "[45, 115, 115] \<noteq> ffmpeg_bin e"
  by (simp add: ffmpeg_bin_def path_join_not_flag) (simp add: lit_def)

lemma upload_reaches_encoder:
  assumes "filename rq = Some f" "f \<noteq> []" "content rq \<noteq> []"
    and "trim_error (trim_start rq) (trim_end rq) = None"
  shows "(\<forall>d. fst (upload e w rq) \<noteq> Inl (HTTPException 400 d))
     \<and> (write_bytes e (path_join (recordings_dir e) (original_name e rq f)) (content rq) = Written
          \<longrightarrow> (\<exists>rest. run_calls (snd (upload e w rq))
                 = run_calls w @ encoder_cmd e rq (original_name e rq f) (mp3_name e rq f) # rest))"
proof (cases "write_bytes e (path_join (recordings_dir e) (original_name e rq f)) (content rq)")
  case Written
  let ?w1 = "w\<lparr>files := (files w)(path_join (recordings_dir e) (original_name e rq f) \<mapsto> content rq)\<rparr>"
  have u: "upload e w rq = encode e ?w1 rq (original_name e rq f) (mp3_name e rq f)"
    using assms(1-3) Written assms(4) by (rule upload_encode)
  have "\<forall>d. fst (encode e ?w1 rq (original_name e rq f) (mp3_name e rq f))
             \<noteq> Inl (HTTPException 400 d)"
    using encode_result [of e ?w1 rq "original_name e rq f" "mp3_name e rq f"] by auto
  moreover have "\<exists>rest. run_calls (snd (encode e ?w1 rq (original_name e rq f) (mp3_name e rq f)))
           = run_calls ?w1 @ encoder_cmd e rq (original_name e rq f) (mp3_name e rq f) # rest"
    using encode_frame [of e ?w1 rq "original_name e rq f" "mp3_name e rq f"] by blast
  ultimately show ?thesis by (simp add: u)
next
  case (WriteRaises x left)
  from upload_write_raises(1) [OF assms(1-3) WriteRaises, of w] WriteRaises
  show ?thesis by simp
qed

text \<open>
  C3. When both trim values are given with \<open>trim_end > trim_start \<ge> 0\<close>, the trim checks
  raise nothing, and the command the handler builds is the encoder, \<open>-y -v error -i\<close> and
  the path of the original, then \<open>-ss\<close> with \<open>trim_start\<close> and \<open>-t\<close> with the float
  \<open>trim_end - trim_start\<close>, then the fixed arguments \<open>-vn -ac 1 -ar 44100 -codec:a
  libmp3lame -qscale:a 3\<close> and the path of \<open><stem>.mp3\<close>. A request with a filename and
  a payload is not answered with status 400, and once its original is written this
  command is the one handed to \<open>subprocess.run\<close>.
\<close>

theorem valid_trim_pair_builds_both_flags:
  assumes "trim_start rq = Some ts" and "trim_end rq = Some te"
    and "fle (Finite 0) ts" and "fless ts te"
  shows "trim_error (trim_start rq) (trim_end rq) = None
     \<and> encoder_cmd e rq oname mname =
         [Str (ffmpeg_bin e), Str (lit ''-y''), Str (lit ''-v''), Str (lit ''error''),
          Str (lit ''-i''), Str (path_join (recordings_dir e) oname),
          Str (lit ''-ss''), FloatText ts,
          Str (lit ''-t''), FloatText (fsub (round_double e) te ts),
          Str (lit ''-vn''), Str (lit ''-ac''), Str (lit ''1''), Str (lit ''-ar''),
          Str (lit ''44100''), Str (lit ''-codec:a''), Str (lit ''libmp3lame''),
          Str (lit ''-qscale:a''), Str (lit ''3''), Str (path_join (recordings_dir e) mname)]
     \<and> (\<forall>f. filename rq = Some f \<and> f \<noteq> [] \<and> content rq \<noteq> [] \<longrightarrow>
           mp3_name e rq f = stem_of e rq f @ lit ''.mp3''
           \<and> (\<forall>d. fst (upload e w rq) \<noteq> Inl (HTTPException 400 d))
           \<and> (write_bytes e (path_join (recordings_dir e) (original_name e rq f)) (content rq)
                 = Written \<longrightarrow>
                (\<exists>rest. run_calls (snd (upload e w rq))
                   = run_calls w @ encoder_cmd e rq (original_name e rq f) (mp3_name e rq f) # rest)))"
proof -
  have v: "trim_error (trim_start rq) (trim_end rq) = None"
    using assms by (simp add: trim_error_valid_pair)
  have c: "encoder_cmd e rq oname mname =
         [Str (ffmpeg_bin e), Str (lit ''-y''), Str (lit ''-v''), Str (lit ''error''),
          Str (lit ''-i''), Str (path_join (recordings_dir e) oname),
          Str (lit ''-ss''), FloatText ts,
          Str (lit ''-t''), FloatText (fsub (round_double e) te ts),
          Str (lit ''-vn''), Str (lit ''-ac''), Str (lit ''1''), Str (lit ''-ar''),
          Str (lit ''44100''), Str (lit ''-codec:a''), Str (lit ''libmp3lame''),
          Str (lit ''-qscale:a''), Str (lit ''3''), Str (path_join (recordings_dir e) mname)]"
    using assms by (rule encoder_cmd_both)
  have "\<forall>f. filename rq = Some f \<and> f \<noteq> [] \<and> content rq \<noteq> [] \<longrightarrow>
           mp3_name e rq f = stem_of e rq f @ lit ''.mp3''
           \<and> (\<forall>d. fst (upload e w rq) \<noteq> Inl (HTTPException 400 d))
           \<and> (write_bytes e (path_join (recordings_dir e) (original_name e rq f)) (content rq)
                 = Written \<longrightarrow>
                (\<exists>rest. run_calls (snd (upload e w rq))
                   = run_calls w @ encoder_cmd e rq (original_name e rq f) (mp3_name e rq f) # rest))"
    using upload_reaches_encoder [OF _ _ _ v, of _ e w] by (simp add: mp3_name_def)
  with v c show ?thesis by blast
qed

theorem valid_trim_pair_builds_both_flags_witness:
  "trim_start (sample_request\<lparr>trim_start := Some (Finite 1), trim_end := Some (Finite 3)\<rparr>)
     = Some (Finite 1)
   \<and> trim_end (sample_request\<lparr>trim_start := Some (Finite 1), trim_end := Some (Finite 3)\<rparr>)
     = Some (Finite 3)
   \<and> fle (Finite 0) (Finite 1) \<and> fless (Finite 1) (Finite 3)
   \<and> filename (sample_request\<lparr>trim_start := Some (Finite 1), trim_end := Some (Finite 3)\<rparr>)
     = Some (lit ''demo.wav'')
   \<and> lit ''demo.wav'' \<noteq> []
   \<and> content (sample_request\<lparr>trim_start := Some (Finite 1), trim_end := Some (Finite 3)\<rparr>) \<noteq> []
   \<and> write_bytes sample_env
        (path_join (recordings_dir sample_env)
           (original_name sample_env
              (sample_request\<lparr>trim_start := Some (Finite 1), trim_end := Some (Finite 3)\<rparr>)
              (lit ''demo.wav'')))
        (content (sample_request\<lparr>trim_start := Some (Finite 1), trim_end := Some (Finite 3)\<rparr>))
     = Written
   \<and> fsub (round_double sample_env) (Finite 3) (Finite 1) = Finite 2
   \<and> (\<exists>rest. run_calls (snd (upload sample_env empty_world
                  (sample_request\<lparr>trim_start := Some (Finite 1), trim_end := Some (Finite 3)\<rparr>)))
         = run_calls empty_world @
           [Str (ffmpeg_bin sample_env), Str (lit ''-y''), Str (lit ''-v''), Str (lit ''error''),
            Str (lit ''-i''),
            Str (path_join (recordings_dir sample_env)
                  (original_name sample_env
                    (sample_request\<lparr>trim_start := Some (Finite 1), trim_end := Some (Finite 3)\<rparr>)
                    (lit ''demo.wav''))),
            Str (lit ''-ss''), FloatText (Finite 1),
            Str (lit ''-t''), FloatText (fsub (round_double sample_env) (Finite 3) (Finite 1)),
            Str (lit ''-vn''), Str (lit ''-ac''), Str (lit ''1''), Str (lit ''-ar''),
            Str (lit ''44100''), Str (lit ''-codec:a''), Str (lit ''libmp3lame''),
            Str (lit ''-qscale:a''), Str (lit ''3''),
            Str (path_join (recordings_dir sample_env)
                  (mp3_name sample_env
                    (sample_request\<lparr>trim_start := Some (Finite 1), trim_end := Some (Finite 3)\<rparr>)
                    (lit ''demo.wav'')))]
           # rest)"
proof -
  let ?rq = "sample_request\<lparr>trim_start := Some (Finite 1), trim_end := Some (Finite 3)\<rparr>"
  let ?p = "path_join (recordings_dir sample_env) (original_name sample_env ?rq (lit ''demo.wav''))"
  have h: "trim_start ?rq = Some (Finite 1)" "trim_end ?rq = Some (Finite 3)"
    "fle (Finite 0) (Finite 1)" "fless (Finite 1) (Finite 3)"
    by simp_all
  have f: "filename ?rq = Some (lit ''demo.wav'')" "lit ''demo.wav'' \<noteq> []" "content ?rq \<noteq> []"
    by (simp_all add: sample_request_def lit_def)
  have wr: "write_bytes sample_env ?p (content ?rq) = Written"
    by (simp add: sample_env_def)
  have d: "fsub (round_double sample_env) (Finite 3) (Finite 1) = Finite 2"
    by (simp add: sample_env_def)
  note th = valid_trim_pair_builds_both_flags [OF h, of sample_env _ _ empty_world]
  from th f wr have "\<exists>rest. run_calls (snd (upload sample_env empty_world ?rq))
      = run_calls empty_world
        @ encoder_cmd sample_env ?rq (original_name sample_env ?rq (lit ''demo.wav''))
            (mp3_name sample_env ?rq (lit ''demo.wav'')) # rest"
    by blast
  moreover from th have "encoder_cmd sample_env ?rq (original_name sample_env ?rq (lit ''demo.wav''))
            (mp3_name sample_env ?rq (lit ''demo.wav'')) =
           [Str (ffmpeg_bin sample_env), Str (lit ''-y''), Str (lit ''-v''), Str (lit ''error''),
            Str (lit ''-i''), Str ?p,
            Str (lit ''-ss''), FloatText (Finite 1),
            Str (lit ''-t''), FloatText (fsub (round_double sample_env) (Finite 3) (Finite 1)),
            Str (lit ''-vn''), Str (lit ''-ac''), Str (lit ''1''), Str (lit ''-ar''),
            Str (lit ''44100''), Str (lit ''-codec:a''), Str (lit ''libmp3lame''),
            Str (lit ''-qscale:a''), Str (lit ''3''),
            Str (path_join (recordings_dir sample_env) (mp3_name sample_env ?rq (lit ''demo.wav'')))]"
    by blast
  ultimately have "\<exists>rest. run_calls (snd (upload sample_env empty_world ?rq))
      = run_calls empty_world @
           [Str (ffmpeg_bin sample_env), Str (lit ''-y''), Str (lit ''-v''), Str (lit ''error''),
            Str (lit ''-i''), Str ?p,
            Str (lit ''-ss''), FloatText (Finite 1),
            Str (lit ''-t''), FloatText (fsub (round_double sample_env) (Finite 3) (Finite 1)),
            Str (lit ''-vn''), Str (lit ''-ac''), Str (lit ''1''), Str (lit ''-ar''),
            Str (lit ''44100''), Str (lit ''-codec:a''), Str (lit ''libmp3lame''),
            Str (lit ''-qscale:a''), Str (lit ''3''),
            Str (path_join (recordings_dir sample_env) (mp3_name sample_env ?rq (lit ''demo.wav'')))]
           # rest"
    by (simp only:)
  with h f wr d show ?thesis by (intro conjI)
qed

text \<open>
  C9. When \<open>trim_end\<close> is given without \<open>trim_start\<close>, every \<open>trim_end \<ge> 0\<close> passes the
  trim checks, zero included: it is not compared with a start of zero. The command then
  carries \<open>-t\<close> with \<open>trim_end\<close> itself (the float \<open>trim_end - 0.0\<close>) and no \<open>-ss\<close>. A
  request with a filename and a payload is not answered with status 400, and once its
  original is written this command is the one handed to \<open>subprocess.run\<close>.
\<close>

theorem end_only_trim_accepted_without_seek:
  assumes "trim_start rq = None" and "trim_end rq = Some te" and "fle (Finite 0) te"
  shows "trim_error (trim_start rq) (trim_end rq) = None
     \<and> encoder_cmd e rq oname mname =
         [Str (ffmpeg_bin e), Str (lit ''-y''), Str (lit ''-v''), Str (lit ''error''),
          Str (lit ''-i''), Str (path_join (recordings_dir e) oname),
          Str (lit ''-t''), FloatText te,
          Str (lit ''-vn''), Str (lit ''-ac''), Str (lit ''1''), Str (lit ''-ar''),
          Str (lit ''44100''), Str (lit ''-codec:a''), Str (lit ''libmp3lame''),
          Str (lit ''-qscale:a''), Str (lit ''3''), Str (path_join (recordings_dir e) mname)]
     \<and> Str (lit ''-ss'') \<notin> set (encoder_cmd e rq oname mname)
     \<and> (\<forall>f. filename rq = Some f \<and> f \<noteq> [] \<and> content rq \<noteq> [] \<longrightarrow>
           (\<forall>d. fst (upload e w rq) \<noteq> Inl (HTTPException 400 d))
           \<and> (write_bytes e (path_join (recordings_dir e) (original_name e rq f)) (content rq)
                 = Written \<longrightarrow>
                (\<exists>rest. run_calls (snd (upload e w rq))
                   = run_calls w @ encoder_cmd e rq (original_name e rq f) (mp3_name e rq f) # rest)))"
proof -
  have v: "trim_error (trim_start rq) (trim_end rq) = None"
    using assms by (simp add: trim_error_end_only)
  have c: "encoder_cmd e rq oname mname =
         [Str (ffmpeg_bin e), Str (lit ''-y''), Str (lit ''-v''), Str (lit ''error''),
          Str (lit ''-i''), Str (path_join (recordings_dir e) oname),
          Str (lit ''-t''), FloatText te,
          Str (lit ''-vn''), Str (lit ''-ac''), Str (lit ''1''), Str (lit ''-ar''),
          Str (lit ''44100''), Str (lit ''-codec:a''), Str (lit ''libmp3lame''),
          Str (lit ''-qscale:a''), Str (lit ''3''), Str (path_join (recordings_dir e) mname)]"
    using assms by (rule encoder_cmd_end_only)
  have n: "Str (lit ''-ss'') \<notin> set (encoder_cmd e rq oname mname)"
    unfolding c by (simp add: lit_def path_join_not_flag ffmpeg_bin_not_flag)
  have "\<forall>f. filename rq = Some f \<and> f \<noteq> [] \<and> content rq \<noteq> [] \<longrightarrow>
           (\<forall>d. fst (upload e w rq) \<noteq> Inl (HTTPException 400 d))
           \<and> (write_bytes e (path_join (recordings_dir e) (original_name e rq f)) (content rq)
                 = Written \<longrightarrow>
                (\<exists>rest. run_calls (snd (upload e w rq))
                   = run_calls w @ encoder_cmd e rq (original_name e rq f) (mp3_name e rq f) # rest))"
    using upload_reaches_encoder [OF _ _ _ v, of _ e w] by simp
  with v c n show ?thesis by blast
qed

theorem end_only_trim_accepted_without_seek_witness:
  "trim_start (sample_request\<lparr>trim_end := Some (Finite 0)\<rparr>) = None
   \<and> trim_end (sample_request\<lparr>trim_end := Some (Finite 0)\<rparr>) = Some (Finite 0)
   \<and> fle (Finite 0) (Finite 0)
   \<and> filename (sample_request\<lparr>trim_end := Some (Finite 0)\<rparr>) = Some (lit ''demo.wav'')
   \<and> lit ''demo.wav'' \<noteq> []
   \<and> content (sample_request\<lparr>trim_end := Some (Finite 0)\<rparr>) \<noteq> []
   \<and> write_bytes sample_env
        (path_join (recordings_dir sample_env)
           (original_name sample_env (sample_request\<lparr>trim_end := Some (Finite 0)\<rparr>)
              (lit ''demo.wav'')))
        (content (sample_request\<lparr>trim_end := Some (Finite 0)\<rparr>))
     = Written
   \<and> trim_error (trim_start (sample_request\<lparr>trim_end := Some (Finite 0)\<rparr>))
        (trim_end (sample_request\<lparr>trim_end := Some (Finite 0)\<rparr>)) = None
   \<and> Str (lit ''-ss'') \<notin> set (encoder_cmd sample_env (sample_request\<lparr>trim_end := Some (Finite 0)\<rparr>)
                                 (lit ''a.wav'') (lit ''a.mp3''))
   \<and> (\<exists>rest. run_calls (snd (upload sample_env empty_world
                               (sample_request\<lparr>trim_end := Some (Finite 0)\<rparr>)))
         = run_calls empty_world
           @ encoder_cmd sample_env (sample_request\<lparr>trim_end := Some (Finite 0)\<rparr>)
               (original_name sample_env (sample_request\<lparr>trim_end := Some (Finite 0)\<rparr>)
                  (lit ''demo.wav''))
               (mp3_name sample_env (sample_request\<lparr>trim_end := Some (Finite 0)\<rparr>)
                  (lit ''demo.wav''))
           # rest)"
proof -
  let ?rq = "sample_request\<lparr>trim_end := Some (Finite 0)\<rparr>"
  let ?p = "path_join (recordings_dir sample_env) (original_name sample_env ?rq (lit ''demo.wav''))"
  have h: "trim_start ?rq = None" "trim_end ?rq = Some (Finite 0)" "fle (Finite 0) (Finite 0)"
    by (simp_all add: sample_request_def)
  have f: "filename ?rq = Some (lit ''demo.wav'')" "lit ''demo.wav'' \<noteq> []" "content ?rq \<noteq> []"
    by (simp_all add: sample_request_def lit_def)
  have wr: "write_bytes sample_env ?p (content ?rq) = Written"
    by (simp add: sample_env_def)
  note th = end_only_trim_accepted_without_seek [OF h, of sample_env _ _ empty_world]
  from th f wr have "\<exists>rest. run_calls (snd (upload sample_env empty_world ?rq))
      = run_calls empty_world
        @ encoder_cmd sample_env ?rq (original_name sample_env ?rq (lit ''demo.wav''))
            (mp3_name sample_env ?rq (lit ''demo.wav'')) # rest"
    by blast
  moreover from th
  have "trim_error (trim_start ?rq) (trim_end ?rq) = None"
    and "Str (lit ''-ss'') \<notin> set (encoder_cmd sample_env ?rq (lit ''a.wav'') (lit ''a.mp3''))"
    by blast+
  ultimately show ?thesis using h f wr by (intro conjI)
qed

section \<open>A missing encoder\<close>

text \<open>
  C4. The launch of the encoder is reached when the filename and the payload are present,
  the original has been written and the trim values are valid. When that launch raises
  \<open>FileNotFoundError\<close>, the request fails with status 500 and the detail
  \<open>ffmpeg not found: \<close> followed by the exception, and the encoder has created no MP3
  file: the files are exactly those present once the original was persisted, and the
  world differs from that moment only by the recorded launch.
\<close>

theorem encoder_missing_no_mp3_created:
  assumes "filename rq = Some f" and "f \<noteq> []" and "content rq \<noteq> []"
    and "write_bytes e (path_join (recordings_dir e) (original_name e rq f)) (content rq) = Written"
    and "trim_error (trim_start rq) (trim_end rq) = None"
    and "run_proc e (encoder_cmd e rq (original_name e rq f) (mp3_name e rq f)) = Raises x"
    and "is_FileNotFoundError x"
  shows "fst (upload e w rq) = Inl (HTTPException 500 (WithExc (lit ''ffmpeg not found: '') x))
     \<and> snd (upload e w rq)
         = w\<lparr>files := (files w)(path_join (recordings_dir e) (original_name e rq f) \<mapsto> content rq),
              run_calls := run_calls w @ [encoder_cmd e rq (original_name e rq f) (mp3_name e rq f)]\<rparr>
     \<and> files (snd (upload e w rq))
         = (files w)(path_join (recordings_dir e) (original_name e rq f) \<mapsto> content rq)"
proof -
  let ?w1 = "w\<lparr>files := (files w)(path_join (recordings_dir e) (original_name e rq f) \<mapsto> content rq)\<rparr>"
  have u: "upload e w rq = encode e ?w1 rq (original_name e rq f) (mp3_name e rq f)"
    using assms(1-5) by (rule upload_encode)
  have r: "encode e ?w1 rq (original_name e rq f) (mp3_name e rq f)
           = (Inl (HTTPException 500 (WithExc (lit ''ffmpeg not found: '') x)),
              ?w1\<lparr>run_calls := run_calls ?w1 @ [encoder_cmd e rq (original_name e rq f) (mp3_name e rq f)]\<rparr>)"
    using encode_raises [OF assms(6), of ?w1] assms(7) by simp
  show ?thesis by (simp add: u r)
qed

theorem encoder_missing_no_mp3_created_witness:
  "filename sample_request = Some (lit ''demo.wav'')
   \<and> lit ''demo.wav'' \<noteq> []
   \<and> content sample_request \<noteq> []
   \<and> write_bytes (sample_env\<lparr>run_proc := (\<lambda>_. Raises (FileNotFoundError (lit ''ffmpeg'')))\<rparr>)
        (path_join (recordings_dir (sample_env\<lparr>run_proc := (\<lambda>_. Raises (FileNotFoundError (lit ''ffmpeg'')))\<rparr>))
           (original_name (sample_env\<lparr>run_proc := (\<lambda>_. Raises (FileNotFoundError (lit ''ffmpeg'')))\<rparr>)
              sample_request (lit ''demo.wav'')))
        (content sample_request)
       = Written
   \<and> trim_error (trim_start sample_request) (trim_end sample_request) = None
   \<and> run_proc (sample_env\<lparr>run_proc := (\<lambda>_. Raises (FileNotFoundError (lit ''ffmpeg'')))\<rparr>)
        (encoder_cmd (sample_env\<lparr>run_proc := (\<lambda>_. Raises (FileNotFoundError (lit ''ffmpeg'')))\<rparr>)
           sample_request
           (original_name (sample_env\<lparr>run_proc := (\<lambda>_. Raises (FileNotFoundError (lit ''ffmpeg'')))\<rparr>)
              sample_request (lit ''demo.wav''))
           (mp3_name (sample_env\<lparr>run_proc := (\<lambda>_. Raises (FileNotFoundError (lit ''ffmpeg'')))\<rparr>)
              sample_request (lit ''demo.wav'')))
       = Raises (FileNotFoundError (lit ''ffmpeg''))
   \<and> is_FileNotFoundError (FileNotFoundError (lit ''ffmpeg''))
   \<and> fst (upload (sample_env\<lparr>run_proc := (\<lambda>_. Raises (FileNotFoundError (lit ''ffmpeg'')))\<rparr>)
          empty_world sample_request)
       = Inl (HTTPException 500
               (WithExc (lit ''ffmpeg not found: '') (FileNotFoundError (lit ''ffmpeg''))))
   \<and> files (snd (upload (sample_env\<lparr>run_proc := (\<lambda>_. Raises (FileNotFoundError (lit ''ffmpeg'')))\<rparr>)
                 empty_world sample_request))
         (lit ''/app/recordings/session_2025-01-04_09-30-07.mp3'') = None"
proof -
  let ?e = "sample_env\<lparr>run_proc := (\<lambda>_. Raises (FileNotFoundError (lit ''ffmpeg'')))\<rparr>"
  let ?p = "path_join (recordings_dir ?e) (original_name ?e sample_request (lit ''demo.wav''))"
  have h: "filename sample_request = Some (lit ''demo.wav'')" "lit ''demo.wav'' \<noteq> []"
    "content sample_request \<noteq> []"
    "write_bytes ?e ?p (content sample_request) = Written"
    "trim_error (trim_start sample_request) (trim_end sample_request) = None"
    "run_proc ?e (encoder_cmd ?e sample_request (original_name ?e sample_request (lit ''demo.wav''))
        (mp3_name ?e sample_request (lit ''demo.wav''))) = Raises (FileNotFoundError (lit ''ffmpeg''))"
    "is_FileNotFoundError (FileNotFoundError (lit ''ffmpeg''))"
    by (simp_all add: sample_request_def sample_env_def lit_def trim_error_def)
  have p: "?p = lit ''/app/recordings/session_2025-01-04_09-30-07.wav''"
    by code_simp
  have q: "lit ''/app/recordings/session_2025-01-04_09-30-07.wav''
           \<noteq> lit ''/app/recordings/session_2025-01-04_09-30-07.mp3''"
    by (simp add: lit_def)
  note th = encoder_missing_no_mp3_created [OF h, of empty_world]
  from th have "files (snd (upload ?e empty_world sample_request))
                = (files empty_world)(?p \<mapsto> content sample_request)"
    by blast
  then have "files (snd (upload ?e empty_world sample_request))
               (lit ''/app/recordings/session_2025-01-04_09-30-07.mp3'') = None"
    using q by (simp add: p empty_world_def)
  with th h show ?thesis by blast
qed

section \<open>The publish steps\<close>

lemma auto_gcs_caught:
  assumes "auto_upload_gcs rq = Some (lit ''1'')" and "gcs_try e w n p = (Inl x, w')"
    and "is_ImportError x \<or> is_OSError x"
  shows "fst (auto_gcs e w rq n p) = Inr False
     \<and> length (stderr_log (snd (auto_gcs e w rq n p))) = Suc (length (stderr_log w'))"
  using assms by (auto simp: auto_gcs_def log_line_def)

lemma auto_gcs_escapes:
  assumes "auto_upload_gcs rq = Some (lit ''1'')" and "gcs_try e w n p = (Inl x, w')"
    and "\<not> is_ImportError x" and "\<not> is_OSError x"
  shows "auto_gcs e w rq n p = (Inl x, w')"
  using assms by (simp add: auto_gcs_def)

text \<open>
  C2, at a failing input. The request asks for the upload to the bucket and the
  construction of the storage client raises an exception that is neither an
  \<open>ImportError\<close> nor an \<open>OSError\<close> (the credentials error of the client library). The two
  \<open>except\<close> clauses do not catch it: the handler does not return the response with
  \<open>auto_gcs_uploaded = false\<close>, the exception escapes and the request fails.
\<close>

theorem gcs_credentials_failure_escapes:
  "fst (upload (sample_env\<lparr>gcs_client := Some (OtherException (lit ''DefaultCredentialsError''))\<rparr>)
          empty_world (sample_request\<lparr>auto_upload_gcs := Some (lit ''1'')\<rparr>))
   = Inl (Uncaught (OtherException (lit ''DefaultCredentialsError'')))"
  by code_simp

lemma json_response_flags:
  "map_of (json_response oname mname g t) (lit ''auto_gcs_uploaded'') = Some (JBool g)
   \<and> map_of (json_response oname mname g t) (lit ''auto_transcribed'') = Some (JBool t)
   \<and> map_of (json_response oname mname g t) (lit ''original_filename'') = Some (JStr oname)"
  by (simp add: json_response_def lit_def)

text \<open>
  C7. When neither \<open>auto_upload_gcs\<close> nor \<open>auto_transcribe\<close> is the string \<open>1\<close>, every
  response has \<open>auto_gcs_uploaded\<close> and \<open>auto_transcribed\<close> false, no upload to the bucket
  is attempted, and the commands handed to \<open>subprocess.run\<close> are the encoder command alone
  (none at all when the request ends before the encoder: no filename, no payload, a
  write of the original that raises, or invalid trim values).
\<close>

theorem no_publish_flags_no_publish_effects:
  assumes "auto_upload_gcs rq \<noteq> Some (lit ''1'')" and "auto_transcribe rq \<noteq> Some (lit ''1'')"
  shows "(\<forall>r. fst (upload e w rq) = Inr r \<longrightarrow>
            map_of r (lit ''auto_gcs_uploaded'') = Some (JBool False)
            \<and> map_of r (lit ''auto_transcribed'') = Some (JBool False))
     \<and> gcs_calls (snd (upload e w rq)) = gcs_calls w
     \<and> run_calls (snd (upload e w rq))
         = (case filename rq of
              None \<Rightarrow> run_calls w
            | Some f \<Rightarrow>
                if f = [] \<or> content rq = []
                   \<or> write_bytes e (path_join (recordings_dir e) (original_name e rq f)) (content rq)
                      \<noteq> Written
                   \<or> trim_error (trim_start rq) (trim_end rq) \<noteq> None
                then run_calls w
                else run_calls w @ [encoder_cmd e rq (original_name e rq f) (mp3_name e rq f)])"
proof (cases "filename rq = None \<or> filename rq = Some [] \<or> content rq = []")
  case True
  from upload_reject [OF True, of e w] True show ?thesis
    by (auto split: option.splits)
next
  case False
  then obtain f where f: "filename rq = Some f" "f \<noteq> []" "content rq \<noteq> []" by auto
  show ?thesis
  proof (cases "write_bytes e (path_join (recordings_dir e) (original_name e rq f)) (content rq)")
    case (WriteRaises x left)
    from upload_write_raises(1-3) [OF f WriteRaises, of w] f WriteRaises show ?thesis by simp
  next
    case Written
    show ?thesis
    proof (cases "trim_error (trim_start rq) (trim_end rq)")
      case (Some d)
      from upload_trim_reject [OF f Written Some, of w] f Written Some show ?thesis by simp
    next
      case None
      let ?w1 = "w\<lparr>files := (files w)(path_join (recordings_dir e) (original_name e rq f) \<mapsto> content rq)\<rparr>"
      from upload_encode [OF f Written None, of w]
        encode_no_flags [OF assms, of e ?w1 "original_name e rq f" "mp3_name e rq f"]
        f Written None json_response_flags [of "original_name e rq f" "mp3_name e rq f" False False]
      show ?thesis by auto
    qed
  qed
qed

lemma sample_upload:
  "fst (upload sample_env empty_world sample_request)
   = Inr (json_response (lit ''session_2025-01-04_09-30-07.wav'')
            (lit ''session_2025-01-04_09-30-07.mp3'') False False)"
  by code_simp

theorem no_publish_flags_no_publish_effects_witness:
  "auto_upload_gcs sample_request \<noteq> Some (lit ''1'')
   \<and> auto_transcribe sample_request \<noteq> Some (lit ''1'')
   \<and> fst (upload sample_env empty_world sample_request)
       = Inr (json_response (lit ''session_2025-01-04_09-30-07.wav'')
                (lit ''session_2025-01-04_09-30-07.mp3'') False False)
   \<and> map_of (json_response (lit ''session_2025-01-04_09-30-07.wav'')
                (lit ''session_2025-01-04_09-30-07.mp3'') False False)
         (lit ''auto_gcs_uploaded'') = Some (JBool False)
   \<and> map_of (json_response (lit ''session_2025-01-04_09-30-07.wav'')
                (lit ''session_2025-01-04_09-30-07.mp3'') False False)
         (lit ''auto_transcribed'') = Some (JBool False)
   \<and> gcs_calls (snd (upload sample_env empty_world sample_request)) = gcs_calls empty_world"
proof -
  have h: "auto_upload_gcs sample_request \<noteq> Some (lit ''1'')"
    "auto_transcribe sample_request \<noteq> Some (lit ''1'')"
    by (simp_all add: sample_request_def)
  from no_publish_flags_no_publish_effects [OF h, of sample_env empty_world] sample_upload h
  show ?thesis by blast
qed

section \<open>The response and the names\<close>

lemma upload_success:
  assumes "fst (upload e w rq) = Inr r"
  obtains f where "filename rq = Some f" "f \<noteq> []" "content rq \<noteq> []"
    "write_bytes e (path_join (recordings_dir e) (original_name e rq f)) (content rq) = Written"
    "trim_error (trim_start rq) (trim_end rq) = None"
proof (cases "filename rq = None \<or> filename rq = Some [] \<or> content rq = []")
  case True
  from upload_reject [OF True, of e w] assms show ?thesis by auto
next
  case False
  then obtain f where f: "filename rq = Some f" "f \<noteq> []" "content rq \<noteq> []" by auto
  show ?thesis
  proof (cases "write_bytes e (path_join (recordings_dir e) (original_name e rq f)) (content rq)")
    case (WriteRaises x left)
    from upload_write_raises(1) [OF f WriteRaises, of w] assms show ?thesis by simp
  next
    case Written
    show ?thesis
    proof (cases "trim_error (trim_start rq) (trim_end rq)")
      case (Some d)
      from upload_trim_reject [OF f Written Some, of w] assms show ?thesis by simp
    next
      case None
      with f Written that show ?thesis by blast
    qed
  qed
qed

lemma strftime_seconds: "strftime (t\<lparr>microsecond := u\<rparr>) = strftime t"
  by (simp add: strftime_def)

text \<open>
  C8. The response of a successful upload is the JSON object with exactly the keys
  \<open>original_filename\<close>, \<open>mp3_filename\<close>, \<open>original_url\<close>, \<open>mp3_url\<close>,
  \<open>auto_gcs_uploaded\<close> and \<open>auto_transcribed\<close>; each URL is \<open>/recordings/\<close> followed by
  the filename; both filenames begin with one stem, the sanitized name base, \<open>_\<close> and the
  timestamp (which does not depend on the microseconds of the clock), and the MP3
  filename is the stem followed by \<open>.mp3\<close>.
\<close>

theorem response_fields_and_shared_stem:
  assumes "fst (upload e w rq) = Inr r"
  shows "\<exists>f g t. filename rq = Some f
     \<and> map fst r = [lit ''original_filename'', lit ''mp3_filename'', lit ''original_url'',
                     lit ''mp3_url'', lit ''auto_gcs_uploaded'', lit ''auto_transcribed'']
     \<and> r = [(lit ''original_filename'', JStr (stem_of e rq f @ original_ext e f)),
             (lit ''mp3_filename'', JStr (stem_of e rq f @ lit ''.mp3'')),
             (lit ''original_url'', JStr (lit ''/recordings/'' @ stem_of e rq f @ original_ext e f)),
             (lit ''mp3_url'', JStr (lit ''/recordings/'' @ stem_of e rq f @ lit ''.mp3'')),
             (lit ''auto_gcs_uploaded'', JBool g),
             (lit ''auto_transcribed'', JBool t)]
     \<and> stem_of e rq f
         = safe_stem (udb e) (opt_or (name_base rq) (str_or (path_stem f) (lit ''recording'')))
           @ lit ''_'' @ strftime (now e)
     \<and> (\<forall>u. strftime ((now e)\<lparr>microsecond := u\<rparr>) = strftime (now e))"
proof -
  from assms obtain f where f: "filename rq = Some f" "f \<noteq> []" "content rq \<noteq> []"
    "write_bytes e (path_join (recordings_dir e) (original_name e rq f)) (content rq) = Written"
    "trim_error (trim_start rq) (trim_end rq) = None"
    by (rule upload_success)
  let ?w1 = "w\<lparr>files := (files w)(path_join (recordings_dir e) (original_name e rq f) \<mapsto> content rq)\<rparr>"
  have "fst (encode e ?w1 rq (original_name e rq f) (mp3_name e rq f)) = Inr r"
    using upload_encode [OF f, of w] assms by simp
  then obtain g t where "r = json_response (original_name e rq f) (mp3_name e rq f) g t"
    using encode_result [of e ?w1 rq "original_name e rq f" "mp3_name e rq f"] by auto
  then have m: "map fst r = [lit ''original_filename'', lit ''mp3_filename'', lit ''original_url'',
                     lit ''mp3_url'', lit ''auto_gcs_uploaded'', lit ''auto_transcribed'']"
    "r = [(lit ''original_filename'', JStr (stem_of e rq f @ original_ext e f)),
             (lit ''mp3_filename'', JStr (stem_of e rq f @ lit ''.mp3'')),
             (lit ''original_url'', JStr (lit ''/recordings/'' @ stem_of e rq f @ original_ext e f)),
             (lit ''mp3_url'', JStr (lit ''/recordings/'' @ stem_of e rq f @ lit ''.mp3'')),
             (lit ''auto_gcs_uploaded'', JBool g),
             (lit ''auto_transcribed'', JBool t)]"
    by (simp_all add: json_response_def original_name_def mp3_name_def)
  have st: "stem_of e rq f
         = safe_stem (udb e) (opt_or (name_base rq) (str_or (path_stem f) (lit ''recording'')))
           @ lit ''_'' @ strftime (now e)"
    by (simp add: stem_of_def timestamp_name_def)
  have "filename rq = Some f
     \<and> map fst r = [lit ''original_filename'', lit ''mp3_filename'', lit ''original_url'',
                     lit ''mp3_url'', lit ''auto_gcs_uploaded'', lit ''auto_transcribed'']
     \<and> r = [(lit ''original_filename'', JStr (stem_of e rq f @ original_ext e f)),
             (lit ''mp3_filename'', JStr (stem_of e rq f @ lit ''.mp3'')),
             (lit ''original_url'', JStr (lit ''/recordings/'' @ stem_of e rq f @ original_ext e f)),
             (lit ''mp3_url'', JStr (lit ''/recordings/'' @ stem_of e rq f @ lit ''.mp3'')),
             (lit ''auto_gcs_uploaded'', JBool g),
             (lit ''auto_transcribed'', JBool t)]
     \<and> stem_of e rq f
         = safe_stem (udb e) (opt_or (name_base rq) (str_or (path_stem f) (lit ''recording'')))
           @ lit ''_'' @ strftime (now e)
     \<and> (\<forall>u. strftime ((now e)\<lparr>microsecond := u\<rparr>) = strftime (now e))"
    using f(1) m st strftime_seconds by (intro conjI allI)
  then show ?thesis by (intro exI)
qed

theorem response_fields_and_shared_stem_witness:
  "fst (upload sample_env empty_world sample_request)
     = Inr (json_response (lit ''session_2025-01-04_09-30-07.wav'')
              (lit ''session_2025-01-04_09-30-07.mp3'') False False)
   \<and> (\<exists>f g t. filename sample_request = Some f
        \<and> json_response (lit ''session_2025-01-04_09-30-07.wav'')
              (lit ''session_2025-01-04_09-30-07.mp3'') False False
           = [(lit ''original_filename'', JStr (stem_of sample_env sample_request f @ original_ext sample_env f)),
              (lit ''mp3_filename'', JStr (stem_of sample_env sample_request f @ lit ''.mp3'')),
              (lit ''original_url'',
               JStr (lit ''/recordings/'' @ stem_of sample_env sample_request f @ original_ext sample_env f)),
              (lit ''mp3_url'', JStr (lit ''/recordings/'' @ stem_of sample_env sample_request f @ lit ''.mp3'')),
              (lit ''auto_gcs_uploaded'', JBool g),
              (lit ''auto_transcribed'', JBool t)])"
proof -
  from response_fields_and_shared_stem [OF sample_upload] sample_upload
  show ?thesis by blast
qed

lemma original_path_mp3_path:
  "original_ext e f \<noteq> lit ''.mp3'' \<Longrightarrow>
   path_join (recordings_dir e) (original_name e rq f) \<noteq> path_join (recordings_dir e) (mp3_name e rq f)"
  by (simp add: path_join_def original_name_def mp3_name_def)

text \<open>
  C10. For an upload with a filename and a payload, the name of the original is the stem
  followed by the lower-cased extension of the uploaded filename, \<open>.bin\<close> when that
  filename has no extension. Once the write of the original has succeeded the file is in
  the recordings directory under that name and holds the payload (unless its name is also
  the MP3 name, which the encoder writes), and a successful upload reports the name as
  \<open>original_filename\<close>. When \<open>name_base\<close> is absent or empty, the base of the stem is the
  sanitized stem of the uploaded filename, and \<open>recording\<close> when that stem is empty.
\<close>

theorem original_name_extension_and_base:
  assumes "filename rq = Some f" and "f \<noteq> []" and "content rq \<noteq> []"
  shows "original_name e rq f
         = stem_of e rq f @ lower (udb e) (if path_suffix f = [] then lit ''.bin'' else path_suffix f)
     \<and> (path_suffix f = [] \<longrightarrow> original_name e rq f = stem_of e rq f @ lit ''.bin'')
     \<and> (write_bytes e (path_join (recordings_dir e) (original_name e rq f)) (content rq) = Written
          \<longrightarrow>
          path_join (recordings_dir e) (original_name e rq f) \<in> dom (files (snd (upload e w rq)))
          \<and> (original_ext e f \<noteq> lit ''.mp3'' \<longrightarrow>
               files (snd (upload e w rq)) (path_join (recordings_dir e) (original_name e rq f))
               = Some (content rq)))
     \<and> (\<forall>r. fst (upload e w rq) = Inr r \<longrightarrow>
          write_bytes e (path_join (recordings_dir e) (original_name e rq f)) (content rq) = Written
          \<and> map_of r (lit ''original_filename'') = Some (JStr (original_name e rq f)))
     \<and> ((name_base rq = None \<or> name_base rq = Some []) \<longrightarrow>
          stem_of e rq f
          = timestamp_name (now e)
              (safe_stem (udb e) (if path_stem f = [] then lit ''recording'' else path_stem f)))"
proof -
  let ?p = "path_join (recordings_dir e) (original_name e rq f)"
  let ?w1 = "w\<lparr>files := (files w)(?p \<mapsto> content rq)\<rparr>"
  have bin: "lower (udb e) (lit ''.bin'') = lit ''.bin''"
    by (simp add: lower_def lit_def)
  have a: "original_name e rq f
         = stem_of e rq f @ lower (udb e) (if path_suffix f = [] then lit ''.bin'' else path_suffix f)"
    by (simp add: original_name_def original_ext_def str_or_def)
  have b: "path_suffix f = [] \<longrightarrow> original_name e rq f = stem_of e rq f @ lit ''.bin''"
    by (simp add: a bin)
  have n: "(name_base rq = None \<or> name_base rq = Some []) \<longrightarrow>
          stem_of e rq f
          = timestamp_name (now e)
              (safe_stem (udb e) (if path_stem f = [] then lit ''recording'' else path_stem f))"
    by (auto simp: stem_of_def opt_or_def str_or_def)
  have c: "write_bytes e ?p (content rq) = Written \<longrightarrow>
          ?p \<in> dom (files (snd (upload e w rq)))
          \<and> (original_ext e f \<noteq> lit ''.mp3'' \<longrightarrow> files (snd (upload e w rq)) ?p = Some (content rq))"
  proof
    assume wr: "write_bytes e ?p (content rq) = Written"
    show "?p \<in> dom (files (snd (upload e w rq)))
          \<and> (original_ext e f \<noteq> lit ''.mp3'' \<longrightarrow> files (snd (upload e w rq)) ?p = Some (content rq))"
    proof (cases "trim_error (trim_start rq) (trim_end rq)")
      case (Some d)
      from upload_trim_reject [OF assms wr Some, of w] show ?thesis by simp
    next
      case None
      note u = upload_encode [OF assms wr None, of w]
      note fr = encode_frame [of e ?w1 rq "original_name e rq f" "mp3_name e rq f" ?p]
      have "?p \<in> dom (files (snd (upload e w rq)))"
        using fr by (auto simp: u)
      moreover have "original_ext e f \<noteq> lit ''.mp3'' \<longrightarrow>
          files (snd (upload e w rq)) ?p = Some (content rq)"
        using fr original_path_mp3_path [of e f rq] by (auto simp: u)
      ultimately show ?thesis by blast
    qed
  qed
  have d: "\<forall>r. fst (upload e w rq) = Inr r \<longrightarrow>
          write_bytes e ?p (content rq) = Written
          \<and> map_of r (lit ''original_filename'') = Some (JStr (original_name e rq f))"
  proof (intro allI impI)
    fix r assume s: "fst (upload e w rq) = Inr r"
    from s obtain f' where f': "filename rq = Some f'" "f' \<noteq> []" "content rq \<noteq> []"
      "write_bytes e (path_join (recordings_dir e) (original_name e rq f')) (content rq) = Written"
      "trim_error (trim_start rq) (trim_end rq) = None"
      by (rule upload_success)
    from f'(1) assms(1) have eq: "f' = f" by simp
    note u = upload_encode [OF f', of w]
    have "\<exists>g t. r = json_response (original_name e rq f) (mp3_name e rq f) g t"
      using encode_result [of e ?w1 rq "original_name e rq f" "mp3_name e rq f"] s u eq
      by auto
    then show "write_bytes e ?p (content rq) = Written
          \<and> map_of r (lit ''original_filename'') = Some (JStr (original_name e rq f))"
      using f'(4) eq json_response_flags [of "original_name e rq f" "mp3_name e rq f"]
      by auto
  qed
  from a b c d n show ?thesis by blast
qed

theorem original_name_extension_and_base_witness:
  "filename (sample_request\<lparr>filename := Some (lit ''Take.One''), name_base := None\<rparr>)
     = Some (lit ''Take.One'')
   \<and> lit ''Take.One'' \<noteq> []
   \<and> content (sample_request\<lparr>filename := Some (lit ''Take.One''), name_base := None\<rparr>) \<noteq> []
   \<and> name_base (sample_request\<lparr>filename := Some (lit ''Take.One''), name_base := None\<rparr>) = None
   \<and> write_bytes sample_env
        (path_join (recordings_dir sample_env)
           (original_name sample_env
              (sample_request\<lparr>filename := Some (lit ''Take.One''), name_base := None\<rparr>)
              (lit ''Take.One'')))
        (content (sample_request\<lparr>filename := Some (lit ''Take.One''), name_base := None\<rparr>))
       = Written
   \<and> original_ext sample_env (lit ''Take.One'') \<noteq> lit ''.mp3''
   \<and> original_name sample_env
        (sample_request\<lparr>filename := Some (lit ''Take.One''), name_base := None\<rparr>) (lit ''Take.One'')
       = lit ''Take_2025-01-04_09-30-07.one''
   \<and> files (snd (upload sample_env empty_world
                    (sample_request\<lparr>filename := Some (lit ''Take.One''), name_base := None\<rparr>)))
         (path_join (recordings_dir sample_env)
            (original_name sample_env
               (sample_request\<lparr>filename := Some (lit ''Take.One''), name_base := None\<rparr>)
               (lit ''Take.One'')))
       = Some (content (sample_request\<lparr>filename := Some (lit ''Take.One''), name_base := None\<rparr>))
   \<and> stem_of sample_env
        (sample_request\<lparr>filename := Some (lit ''Take.One''), name_base := None\<rparr>) (lit ''Take.One'')
       = timestamp_name (now sample_env)
           (safe_stem (udb sample_env)
              (if path_stem (lit ''Take.One'') = [] then lit ''recording''
               else path_stem (lit ''Take.One'')))
   \<and> path_suffix (lit ''README'') = []
   \<and> original_name sample_env (sample_request\<lparr>filename := Some (lit ''README'')\<rparr>) (lit ''README'')
       = stem_of sample_env (sample_request\<lparr>filename := Some (lit ''README'')\<rparr>) (lit ''README'')
         @ lit ''.bin''"
proof -
  let ?rq = "sample_request\<lparr>filename := Some (lit ''Take.One''), name_base := None\<rparr>"
  let ?rb = "sample_request\<lparr>filename := Some (lit ''README'')\<rparr>"
  let ?p = "path_join (recordings_dir sample_env) (original_name sample_env ?rq (lit ''Take.One''))"
  have h: "filename ?rq = Some (lit ''Take.One'')" "lit ''Take.One'' \<noteq> []" "content ?rq \<noteq> []"
    by (simp_all add: sample_request_def lit_def)
  have hb: "filename ?rb = Some (lit ''README'')" "lit ''README'' \<noteq> []" "content ?rb \<noteq> []"
    by (simp_all add: sample_request_def lit_def)
  have k: "name_base ?rq = None" by simp
  have wr: "write_bytes sample_env ?p (content ?rq) = Written"
    by (simp add: sample_env_def)
  have x: "original_ext sample_env (lit ''Take.One'') \<noteq> lit ''.mp3''"
    "original_name sample_env ?rq (lit ''Take.One'') = lit ''Take_2025-01-04_09-30-07.one''"
    "path_suffix (lit ''README'') = []"
    by code_simp+
  from original_name_extension_and_base [OF h, of sample_env empty_world]
    original_name_extension_and_base [OF hb, of sample_env empty_world] h k wr x
  show ?thesis by blast
qed

end
